theory Spec2Isabelle
  imports Complex_Main "HOL-Library.Sublist" "HOL-Library.Word" "HOL-Library.Signed_Division"
begin

section \<open>Go strings\<close>

text \<open>
  A Go string is a sequence of bytes, here a \<open>string\<close> (a list of 8-bit characters).
  The functions of package \<open>strings\<close>, \<open>strconv\<close> and \<open>fmt\<close> that the data source calls
  are written out below; \<open>fmt.Sprintf\<close> with \<open>%s\<close> verbs is plain concatenation.
\<close>

definition dquote :: char where
  "dquote = CHR 0x22"

definition backslash :: char where
  "backslash = CHR 0x5C"

definition HasPrefix :: "string \<Rightarrow> string \<Rightarrow> bool" where
  "HasPrefix s pre = prefix pre s"

definition HasSuffix :: "string \<Rightarrow> string \<Rightarrow> bool" where
  "HasSuffix s suf = suffix suf s"

text \<open>
  \<open>strings.Count\<close>, \<open>strings.Contains\<close>, \<open>strings.Replace(_, _, _, 1)\<close> and
  \<open>strings.ReplaceAll\<close> for a non-empty search string, which is what every call of the
  data source passes (\<open>*\<close>, \<open>~\<close>, \<open>{{\<close>, \<open>}}\<close>, the double quote, one matched byte).
  Occurrences are found from the left and do not overlap: the first argument of the
  \<open>_skip\<close> functions counts the bytes of the last occurrence that are still to be passed.
\<close>

fun Count_skip :: "nat \<Rightarrow> string \<Rightarrow> string \<Rightarrow> nat" where
  "Count_skip k [] substr = 0"
| "Count_skip (Suc k) (c # cs) substr = Count_skip k cs substr"
| "Count_skip 0 (c # cs) substr =
     (if prefix substr (c # cs) then Suc (Count_skip (length substr - 1) cs substr)
      else Count_skip 0 cs substr)"

definition Count :: "string \<Rightarrow> string \<Rightarrow> nat" where
  "Count s substr = Count_skip 0 s substr"

fun Contains :: "string \<Rightarrow> string \<Rightarrow> bool" where
  "Contains [] substr = (substr = [])"
| "Contains (c # cs) substr = (prefix substr (c # cs) \<or> Contains cs substr)"

fun Replace1 :: "string \<Rightarrow> string \<Rightarrow> string \<Rightarrow> string" where
  "Replace1 [] old new = (if old = [] then new else [])"
| "Replace1 (c # cs) old new =
     (if prefix old (c # cs) then new @ drop (length old) (c # cs)
      else c # Replace1 cs old new)"

fun ReplaceAll_skip :: "nat \<Rightarrow> string \<Rightarrow> string \<Rightarrow> string \<Rightarrow> string" where
  "ReplaceAll_skip k [] old new = []"
| "ReplaceAll_skip (Suc k) (c # cs) old new = ReplaceAll_skip k cs old new"
| "ReplaceAll_skip 0 (c # cs) old new =
     (if prefix old (c # cs) then new @ ReplaceAll_skip (length old - 1) cs old new
      else c # ReplaceAll_skip 0 cs old new)"

definition ReplaceAll :: "string \<Rightarrow> string \<Rightarrow> string \<Rightarrow> string" where
  "ReplaceAll s old new = ReplaceAll_skip 0 s old new"

text \<open>\<open>strings.Trim(s, " ")\<close>: the cutset of the one call is the single space.\<close>

definition Trim :: "string \<Rightarrow> char \<Rightarrow> string" where
  "Trim s c = rev (dropWhile (\<lambda>x. x = c) (rev (dropWhile (\<lambda>x. x = c) s)))"

text \<open>
  \<open>strings.TrimSpace\<close> removes leading and trailing white space as \<open>unicode.IsSpace\<close>
  defines it: the six ASCII characters and the runes U+0085, U+00A0, U+1680,
  U+2000 to U+200A, U+2028, U+2029, U+202F, U+205F and U+3000, given here by their
  UTF-8 encodings.
\<close>

definition spaceRunes :: "string list" where
  "spaceRunes =
     [[CHR 0x09], [CHR 0x0A], [CHR 0x0B], [CHR 0x0C], [CHR 0x0D], [CHR 0x20],
      [CHR 0xC2, CHR 0x85], [CHR 0xC2, CHR 0xA0], [CHR 0xE1, CHR 0x9A, CHR 0x80],
      [CHR 0xE2, CHR 0x80, CHR 0x80], [CHR 0xE2, CHR 0x80, CHR 0x81],
      [CHR 0xE2, CHR 0x80, CHR 0x82], [CHR 0xE2, CHR 0x80, CHR 0x83],
      [CHR 0xE2, CHR 0x80, CHR 0x84], [CHR 0xE2, CHR 0x80, CHR 0x85],
      [CHR 0xE2, CHR 0x80, CHR 0x86], [CHR 0xE2, CHR 0x80, CHR 0x87],
      [CHR 0xE2, CHR 0x80, CHR 0x88], [CHR 0xE2, CHR 0x80, CHR 0x89],
      [CHR 0xE2, CHR 0x80, CHR 0x8A], [CHR 0xE2, CHR 0x80, CHR 0xA8],
      [CHR 0xE2, CHR 0x80, CHR 0xA9], [CHR 0xE2, CHR 0x80, CHR 0xAF],
      [CHR 0xE2, CHR 0x81, CHR 0x9F], [CHR 0xE3, CHR 0x80, CHR 0x80]]"

definition leadingSpace :: "string \<Rightarrow> nat" where
  "leadingSpace s = (case find (\<lambda>u. prefix u s) spaceRunes of None \<Rightarrow> 0 | Some u \<Rightarrow> length u)"

definition trailingSpace :: "string \<Rightarrow> nat" where
  "trailingSpace s = (case find (\<lambda>u. suffix u s) spaceRunes of None \<Rightarrow> 0 | Some u \<Rightarrow> length u)"

fun TrimLeft_skip :: "nat \<Rightarrow> string \<Rightarrow> string" where
  "TrimLeft_skip k [] = []"
| "TrimLeft_skip (Suc k) (c # cs) = TrimLeft_skip k cs"
| "TrimLeft_skip 0 (c # cs) =
     (if leadingSpace (c # cs) = 0 then c # cs
      else TrimLeft_skip (leadingSpace (c # cs) - 1) cs)"

fun TrimRight_skip :: "nat \<Rightarrow> string \<Rightarrow> string" where
  "TrimRight_skip k [] = []"
| "TrimRight_skip (Suc k) (c # cs) = TrimRight_skip k cs"
| "TrimRight_skip 0 (c # cs) =
     (if trailingSpace (rev (c # cs)) = 0 then rev (c # cs)
      else TrimRight_skip (trailingSpace (rev (c # cs)) - 1) cs)"

definition TrimSpace :: "string \<Rightarrow> string" where
  "TrimSpace s = TrimRight_skip 0 (rev (TrimLeft_skip 0 s))"

text \<open>\<open>strconv.Itoa\<close> and \<open>strconv.FormatInt(_, 10)\<close>: the decimal numeral of an integer.\<close>

fun digits :: "nat \<Rightarrow> string" where
  "digits n = (if n < 10 then [''0123456789'' ! n]
               else digits (n div 10) @ [''0123456789'' ! (n mod 10)])"

definition FormatInt10 :: "int \<Rightarrow> string" where
  "FormatInt10 i = (if i < 0 then CHR ''-'' # digits (nat (- i)) else digits (nat i))"

definition Itoa :: "int \<Rightarrow> string" where
  "Itoa i = FormatInt10 i"

text \<open>
  The helper \<open>reverse\<close> is called by the filter builder and declared in a file that is
  not part of the sources at hand; it is taken to reverse its argument, as it is used
  (\<open>reverse(strings.Replace(reverse(s), "~", "", 1))\<close> removes the last tilde).
\<close>

definition reverse :: "string \<Rightarrow> string" where
  "reverse s = rev s"


section \<open>Regular expressions\<close>

text \<open>
  The compiled patterns of the data source are sequences of literals, alternatives of
  literals, single character classes and repeated character classes. Go's \<open>regexp\<close>
  returns the leftmost match and, among those, the one a backtracking search finds
  first: a greedy repetition tries the longest run first, a lazy one the shortest, and
  alternatives are tried in order. \<open>matchAtoms\<close> matches a pattern at the start of a
  string and returns the text consumed by each atom together with the rest.
\<close>

datatype atom =
    Lit string
  | Alt "string list"
  | Class "char \<Rightarrow> bool"
  | Greedy "char \<Rightarrow> bool" nat
  | Lazy "char \<Rightarrow> bool" nat

fun firstSome :: "('a \<Rightarrow> 'b option) \<Rightarrow> 'a list \<Rightarrow> 'b option" where
  "firstSome f [] = None"
| "firstSome f (x # xs) = (case f x of Some y \<Rightarrow> Some y | None \<Rightarrow> firstSome f xs)"

fun matchAtoms :: "atom list \<Rightarrow> string \<Rightarrow> (string list \<times> string) option" where
  "matchAtoms [] s = Some ([], s)"
| "matchAtoms (Lit l # as) s =
     (if prefix l s
      then map_option (\<lambda>(ps, r). (l # ps, r)) (matchAtoms as (drop (length l) s))
      else None)"
| "matchAtoms (Alt ls # as) s =
     firstSome (\<lambda>l. if prefix l s
                    then map_option (\<lambda>(ps, r). (l # ps, r)) (matchAtoms as (drop (length l) s))
                    else None) ls"
| "matchAtoms (Class p # as) s =
     (case s of [] \<Rightarrow> None
      | c # cs \<Rightarrow> if p c then map_option (\<lambda>(ps, r). ([c] # ps, r)) (matchAtoms as cs)
                  else None)"
| "matchAtoms (Greedy p n # as) s =
     firstSome (\<lambda>k. map_option (\<lambda>(ps, r). (take k s # ps, r)) (matchAtoms as (drop k s)))
       (rev [n ..< Suc (length (takeWhile p s))])"
| "matchAtoms (Lazy p n # as) s =
     firstSome (\<lambda>k. map_option (\<lambda>(ps, r). (take k s # ps, r)) (matchAtoms as (drop k s)))
       [n ..< Suc (length (takeWhile p s))]"

text \<open>The leftmost match: the pieces of the first position at which the pattern matches.\<close>

fun findMatch :: "atom list \<Rightarrow> string \<Rightarrow> string list option" where
  "findMatch re [] = map_option fst (matchAtoms re [])"
| "findMatch re (c # cs) =
     (case matchAtoms re (c # cs) of Some (ps, r) \<Rightarrow> Some ps | None \<Rightarrow> findMatch re cs)"

text \<open>
  \<open>Regexp.ReplaceAllFunc\<close> for a pattern that matches no empty string (true of every
  pattern below): each leftmost match is replaced by the function's result and the
  search goes on behind it. The counter is the number of bytes of the last match
  that are still to be passed.
\<close>

fun ReplaceAllFunc_skip :: "atom list \<Rightarrow> (string \<Rightarrow> string) \<Rightarrow> nat \<Rightarrow> string \<Rightarrow> string" where
  "ReplaceAllFunc_skip re repl k [] = []"
| "ReplaceAllFunc_skip re repl (Suc k) (c # cs) = ReplaceAllFunc_skip re repl k cs"
| "ReplaceAllFunc_skip re repl 0 (c # cs) =
     (case matchAtoms re (c # cs) of
        Some (ps, r) \<Rightarrow> repl (concat ps) @ ReplaceAllFunc_skip re repl (length (concat ps) - 1) cs
      | None \<Rightarrow> c # ReplaceAllFunc_skip re repl 0 cs)"

definition ReplaceAllFunc :: "atom list \<Rightarrow> string \<Rightarrow> (string \<Rightarrow> string) \<Rightarrow> string" where
  "ReplaceAllFunc re src repl = ReplaceAllFunc_skip re repl 0 src"

text \<open>The character classes \<open>\s\<close>, \<open>.\<close> and \<open>[\w\d_]\<close> of Go's syntax.\<close>

definition class_space :: "char \<Rightarrow> bool" where
  "class_space c = (c \<in> {CHR 0x09, CHR 0x0A, CHR 0x0C, CHR 0x0D, CHR 0x20})"

definition class_dot :: "char \<Rightarrow> bool" where
  "class_dot c = (c \<noteq> CHR 0x0A)"

definition class_word :: "char \<Rightarrow> bool" where
  "class_word c =
     (c \<in> set ''0123456789abcdefghijklmnopqrstuvwxyzABCDEFGHIJKLMNOPQRSTUVWXYZ_'')"

text \<open>
  \<open>legendKeyFormat = \{\{\s*(.+?)\s*\}\}\<close>,
  \<open>metricNameFormat = ([\w\d_]+)\.(googleapis\.com|io)/(.+)\<close> and
  \<open>wildcardRegexRe = [-\/^$+?.()|[\]{}]\<close>.
\<close>

definition legendKeyFormat :: "atom list" where
  "legendKeyFormat =
     [Lit ''{{'', Greedy class_space 0, Lazy class_dot 1, Greedy class_space 0, Lit ''}}'']"

definition metricNameFormat :: "atom list" where
  "metricNameFormat =
     [Greedy class_word 1, Lit ''.'', Alt [''googleapis.com'', ''io''], Lit ''/'',
      Greedy class_dot 1]"

definition wildcardMeta :: "char \<Rightarrow> bool" where
  "wildcardMeta c = (c \<in> set ''-/^$+?.()|[]{}'')"

definition wildcardRegexRe :: "atom list" where
  "wildcardRegexRe = [Class wildcardMeta]"

text \<open>
  \<open>metricNameFormat.FindStringSubmatch\<close>: the whole match followed by the three
  groups, or the empty (nil) slice when the pattern matches nowhere.
\<close>

definition FindStringSubmatch_metricNameFormat :: "string \<Rightarrow> string list" where
  "FindStringSubmatch_metricNameFormat s =
     (case findMatch metricNameFormat s of
        None \<Rightarrow> []
      | Some ps \<Rightarrow> [concat ps, ps ! 0, ps ! 2, ps ! 4])"


section \<open>Filter builder\<close>

text \<open>The callback of \<open>interpolateFilterWildcards\<close>: two backslashes before the match.\<close>

definition escapeMatch :: "string \<Rightarrow> string" where
  "escapeMatch inp = Replace1 inp inp ([backslash, backslash] @ inp)"

definition interpolateFilterWildcards :: "string \<Rightarrow> string" where
  \<open>interpolateFilterWildcards val =
     (let matches = Count val ''*'' in
      if matches = 2 \<and> HasSuffix val ''*'' \<and> HasPrefix val ''*'' then
        (let val1 = ReplaceAll val ''*'' '''' in
         ''has_substring("'' @ val1 @ ''")'')
      else if matches = 1 \<and> HasPrefix val ''*'' then
        (let val1 = Replace1 val ''*'' '''' in
         ''ends_with("'' @ val1 @ ''")'')
      else if matches = 1 \<and> HasSuffix val ''*'' then
        (let val1 = reverse (Replace1 (reverse val) ''*'' '''') in
         ''starts_with("'' @ val1 @ ''")'')
      else if matches \<noteq> 0 then
        (let val1 = ReplaceAllFunc wildcardRegexRe val escapeMatch;
             val2 = ReplaceAll val1 ''*'' ''.*'';
             val3 = ReplaceAll val2 [dquote] [backslash, backslash, dquote] in
         ''monitoring.regex.full_match("^'' @ val3 @ ''$")'')
      else val)\<close>

text \<open>
  One iteration of the loop of \<open>buildFilterString\<close>, at index \<open>i\<close> with element
  \<open>part\<close>. The operator \<open>filterParts[i-1]\<close> is read only when \<open>i mod 4 = 2\<close>, so the
  index is in range.
\<close>

definition filterStep :: "string list \<Rightarrow> nat \<Rightarrow> string \<Rightarrow> string \<Rightarrow> string" where
  \<open>filterStep filterParts i part filterString =
     (let md = i mod 4 in
      if part = ''AND'' then filterString @ '' ''
      else if md = 2 then
        (let operator = filterParts ! (i - 1) in
         if operator = ''=~'' \<or> operator = ''!=~'' then
           reverse (Replace1 (reverse filterString) ''~'' '''')
             @ ''monitoring.regex.full_match("'' @ part @ ''")''
         else if Contains part ''*'' then filterString @ interpolateFilterWildcards part
         else filterString @ ''"'' @ part @ ''"'')
      else filterString @ part)\<close>

fun filterLoop :: "string list \<Rightarrow> nat \<Rightarrow> string list \<Rightarrow> string \<Rightarrow> string" where
  "filterLoop filterParts i [] filterString = filterString"
| "filterLoop filterParts i (part # rest) filterString =
     filterLoop filterParts (Suc i) rest (filterStep filterParts i part filterString)"

definition buildFilterString :: "string \<Rightarrow> string list \<Rightarrow> string" where
  \<open>buildFilterString metricType filterParts =
     (let filterString = filterLoop filterParts 0 filterParts '''' in
      Trim (''metric.type="'' @ metricType @ ''" '' @ filterString) CHR '' '')\<close>


section \<open>Alignment period\<close>

text \<open>
  \<open>calculateAlignmentPeriod\<close> converts its integer arguments to \<open>float64\<close>, takes
  \<open>math.Max\<close> with \<open>60.0\<close> and converts back with \<open>int(_)\<close>, which truncates toward
  zero. The \<open>float64\<close> values are modelled by rationals: the conversion of an integer
  of magnitude at most \<open>2^53\<close> is exact, and for such an integer the rounded quotient by
  \<open>1000\<close> has the same integer part as the exact one. Intervals and durations come from
  \<open>time.Duration\<close> values (at most \<open>2^63\<close> nanoseconds), so the milliseconds and seconds
  passed by the callers are far below \<open>2^53\<close>.
\<close>

definition go_int :: "rat \<Rightarrow> int" where
  "go_int x = (if x < 0 then - \<lfloor>- x\<rfloor> else \<lfloor>x\<rfloor>)"

definition calculateAlignmentPeriod :: "string \<Rightarrow> int \<Rightarrow> int \<Rightarrow> string" where
  "calculateAlignmentPeriod alignmentPeriod intervalMs durationSeconds =
     (let alignmentPeriod1 =
        (if alignmentPeriod = ''grafana-auto'' \<or> alignmentPeriod = '''' then
           (let alignmentPeriodValue = go_int (max (of_int intervalMs / 1000) 60) in
            ''+'' @ Itoa alignmentPeriodValue @ ''s'')
         else alignmentPeriod) in
      if alignmentPeriod1 = ''cloud-monitoring-auto'' \<or> alignmentPeriod1 = ''stackdriver-auto''
      then
        (let alignmentPeriodValue = go_int (max (of_int durationSeconds) 60) in
         if alignmentPeriodValue < 60 * 60 * 23 then ''+60s''
         else if alignmentPeriodValue < 60 * 60 * 24 * 6 then ''+300s''
         else ''+3600s'')
      else alignmentPeriod1)"


section \<open>Aggregation parameters\<close>

text \<open>
  \<open>url.Values\<close> is a map from a key to the list of its values; \<open>Add\<close> appends a value
  to the list of the key, and reading a key that is absent gives the empty list.
\<close>

type_synonym Values = "string \<rightharpoonup> string list"

definition valuesOf :: "Values \<Rightarrow> string \<Rightarrow> string list" where
  "valuesOf v key = (case v key of None \<Rightarrow> [] | Some vs \<Rightarrow> vs)"

definition Add :: "Values \<Rightarrow> string \<Rightarrow> string \<Rightarrow> Values" where
  "Add v key val = v(key \<mapsto> valuesOf v key @ [val])"

definition crossSeriesReducerDefault :: string where
  "crossSeriesReducerDefault = ''REDUCE_NONE''"

definition perSeriesAlignerDefault :: string where
  "perSeriesAlignerDefault = ''ALIGN_MEAN''"

definition metricQueryType :: string where
  "metricQueryType = ''metrics''"

definition sloQueryType :: string where
  "sloQueryType = ''slo''"

definition mqlEditorMode :: string where
  "mqlEditorMode = ''mql''"

text \<open>
  The query structures are declared in a file that is not part of the sources at hand;
  the records hold the fields that the functions below read or write.
\<close>

datatype preprocessorType = PreprocessorTypeNone | PreprocessorTypeRate | PreprocessorTypeDelta

record metricQuery =
  ProjectName :: string
  MetricType :: string
  CrossSeriesReducer :: string
  AlignmentPeriod :: string
  PerSeriesAligner :: string
  GroupBys :: "string list"
  Filters :: "string list"
  AliasBy :: string
  View :: string
  EditorMode :: string
  Query :: string
  Preprocessor :: string
  PreprocessorType :: preprocessorType

record sloQuery =
  ProjectName :: string
  AlignmentPeriod :: string
  AliasBy :: string
  SelectorName :: string
  ServiceId :: string
  SloId :: string

record grafanaQuery =
  QueryType :: string
  MetricQuery :: metricQuery
  SloQuery :: sloQuery

text \<open>
  \<open>setMetricAggParams\<close> writes through both of its pointers: the result is the updated
  parameters and the updated query.
\<close>

definition setMetricAggParams ::
    "Values \<Rightarrow> metricQuery \<Rightarrow> int \<Rightarrow> int \<Rightarrow> Values \<times> metricQuery" where
  "setMetricAggParams params query durationSeconds intervalMs =
     (let query = (if metricQuery.CrossSeriesReducer query = ''''
                   then query\<lparr>metricQuery.CrossSeriesReducer := crossSeriesReducerDefault\<rparr>
                   else query);
          query = (if metricQuery.PerSeriesAligner query = ''''
                   then query\<lparr>metricQuery.PerSeriesAligner := perSeriesAlignerDefault\<rparr>
                   else query);
          alignmentPeriod =
            calculateAlignmentPeriod (metricQuery.AlignmentPeriod query) intervalMs durationSeconds;
          params =
            (if metricQuery.PreprocessorType query \<noteq> PreprocessorTypeNone then
               (let params = Add params ''secondaryAggregation.alignmentPeriod'' alignmentPeriod;
                    params = Add params ''secondaryAggregation.crossSeriesReducer''
                               (metricQuery.CrossSeriesReducer query);
                    params = Add params ''secondaryAggregation.perSeriesAligner''
                               (metricQuery.PerSeriesAligner query);
                    primaryCrossSeriesReducer =
                      (if length (metricQuery.GroupBys query) > 0
                       then metricQuery.CrossSeriesReducer query
                       else crossSeriesReducerDefault);
                    params = Add params ''aggregation.crossSeriesReducer'' primaryCrossSeriesReducer;
                    aligner =
                      (if metricQuery.PreprocessorType query = PreprocessorTypeDelta
                       then ''ALIGN_DELTA'' else ''ALIGN_RATE'');
                    params = Add params ''aggregation.perSeriesAligner'' aligner
                in foldl (\<lambda>params groupBy. Add params ''secondaryAggregation.groupByFields'' groupBy)
                     params (metricQuery.GroupBys query))
             else
               (let params = Add params ''aggregation.crossSeriesReducer''
                               (metricQuery.CrossSeriesReducer query)
                in Add params ''aggregation.perSeriesAligner'' (metricQuery.PerSeriesAligner query)));
          params = Add params ''aggregation.alignmentPeriod'' alignmentPeriod
      in (foldl (\<lambda>params groupBy. Add params ''aggregation.groupByFields'' groupBy)
            params (metricQuery.GroupBys query),
          query))"

definition setSloAggParams :: "Values \<Rightarrow> sloQuery \<Rightarrow> int \<Rightarrow> int \<Rightarrow> Values" where
  "setSloAggParams params query durationSeconds intervalMs =
     (let params = Add params ''aggregation.alignmentPeriod''
                     (calculateAlignmentPeriod (sloQuery.AlignmentPeriod query) intervalMs
                        durationSeconds)
      in if SelectorName query = ''select_slo_health''
         then Add params ''aggregation.perSeriesAligner'' ''ALIGN_MEAN''
         else Add params ''aggregation.perSeriesAligner'' ''ALIGN_NEXT_OLDER'')"

definition buildSLOFilterExpression :: "sloQuery \<Rightarrow> string" where
  \<open>buildSLOFilterExpression q =
     SelectorName q @ ''("projects/'' @ sloQuery.ProjectName q @ ''/services/'' @ ServiceId q
       @ ''/serviceLevelObjectives/'' @ SloId q @ ''")''\<close>


section \<open>Query executors\<close>

text \<open>
  The request parameters of a structured metric query or an SLO query
  (\<open>cloudMonitoringTimeSeriesFilter\<close>) and a query in the monitoring query language
  (\<open>cloudMonitoringTimeSeriesQuery\<close>); a time is the number of its nanoseconds.
\<close>

record TimeRange =
  From :: int
  To :: int

record cloudMonitoringTimeSeriesFilter =
  Target :: string
  Params :: Values
  RefID :: string
  GroupBys :: "string list"
  AliasBy :: string
  ProjectName :: string
  Selector :: string
  Service :: string
  Slo :: string

record cloudMonitoringTimeSeriesQuery =
  RefID :: string
  ProjectName :: string
  Query :: string
  IntervalMS :: int
  AliasBy :: string
  timeRange :: TimeRange


section \<open>Legend keys\<close>

definition replaceWithMetricPart :: "string \<Rightarrow> string \<Rightarrow> string option" where
  "replaceWithMetricPart metaPartName metricType =
     (let shortMatches = FindStringSubmatch_metricNameFormat metricType in
      if metaPartName = ''metric.name'' \<and> length shortMatches > 2 then Some (shortMatches ! 3)
      else if metaPartName = ''metric.service'' \<and> length shortMatches > 0
        then Some (shortMatches ! 1)
      else None)"

text \<open>The function that \<open>formatLegendKeys\<close> applies to every match of \<open>legendKeyFormat\<close>.\<close>

definition legendReplace ::
    "string \<Rightarrow> (string \<rightharpoonup> string) \<Rightarrow> (string \<rightharpoonup> string) \<Rightarrow>
     cloudMonitoringTimeSeriesFilter \<Rightarrow> string \<Rightarrow> string" where
  "legendReplace metricType labels additionalLabels query inp =
     (let metaPartName = Replace1 inp ''{{'' '''';
          metaPartName = Replace1 metaPartName ''}}'' '''';
          metaPartName = TrimSpace metaPartName in
      if metaPartName = ''metric.type'' then metricType
      else case replaceWithMetricPart metaPartName metricType of
        Some metricPart \<Rightarrow> metricPart
      | None \<Rightarrow>
       (case labels metaPartName of
          Some val \<Rightarrow> val
        | None \<Rightarrow>
         (case additionalLabels metaPartName of
            Some val \<Rightarrow> val
          | None \<Rightarrow>
            if metaPartName = ''project''
               \<and> cloudMonitoringTimeSeriesFilter.ProjectName query \<noteq> ''''
              then cloudMonitoringTimeSeriesFilter.ProjectName query
            else if metaPartName = ''service'' \<and> Service query \<noteq> '''' then Service query
            else if metaPartName = ''slo'' \<and> Slo query \<noteq> '''' then Slo query
            else if metaPartName = ''selector'' \<and> Selector query \<noteq> '''' then Selector query
            else inp)))"

definition formatLegendKeys ::
    "string \<Rightarrow> string \<Rightarrow> (string \<rightharpoonup> string) \<Rightarrow> (string \<rightharpoonup> string) \<Rightarrow>
     cloudMonitoringTimeSeriesFilter \<Rightarrow> string" where
  "formatLegendKeys metricType defaultMetricName labels additionalLabels query =
     (if cloudMonitoringTimeSeriesFilter.AliasBy query = '''' then defaultMetricName
      else ReplaceAllFunc legendKeyFormat (cloudMonitoringTimeSeriesFilter.AliasBy query)
             (legendReplace metricType labels additionalLabels query))"


section \<open>Histogram bucket bounds\<close>

text \<open>
  A panic of the Go runtime or of the code is a value of type \<open>panic\<close>; a function that
  can panic returns \<open>panic + 'a\<close>.
\<close>

datatype panic = IndexOutOfRange | UnrecognizedQueryType string

text \<open>
  The bucket options are declared in a file that is not part of the sources at hand.
  \<open>Offset\<close> and \<open>Width\<close> are \<open>int64\<close> (the code passes their sum to
  \<open>strconv.FormatInt\<close>); \<open>Scale\<close>, \<open>GrowthFactor\<close> and the \<open>Bounds\<close> are \<open>float64\<close>.
  Floating-point numbers are values of a type parameter \<open>'f\<close>, and the operations the
  code applies to them are the fields of a record: the product, \<open>math.Pow\<close>, the
  conversions \<open>float64(_)\<close> from \<open>int\<close> and \<open>int64(_)\<close> to \<open>int64\<close>, and the verb
  \<open>%g\<close> of \<open>fmt.Sprintf\<close>. The index \<open>n\<close> is a Go \<open>int\<close>, of 64 bits.
\<close>

record 'f float64_ops =
  times :: "'f \<Rightarrow> 'f \<Rightarrow> 'f"
  Pow :: "'f \<Rightarrow> 'f \<Rightarrow> 'f"
  float64_of_int :: "64 word \<Rightarrow> 'f"
  int64_of_float64 :: "'f \<Rightarrow> 64 word"
  Sprintf_g :: "'f \<Rightarrow> string"

record linearBuckets =
  Width :: "64 word"
  Offset :: "64 word"

record 'f exponentialBuckets =
  GrowthFactor :: 'f
  Scale :: 'f

record 'f explicitBuckets =
  Bounds :: "'f list"

record 'f cloudMonitoringBucketOptions =
  LinearBuckets :: "linearBuckets option"
  ExponentialBuckets :: "'f exponentialBuckets option"
  ExplicitBuckets :: "'f explicitBuckets option"

definition calcBucketBound ::
    "'f float64_ops \<Rightarrow> 'f cloudMonitoringBucketOptions \<Rightarrow> 64 word \<Rightarrow> panic + string" where
  "calcBucketBound fl bucketOptions n =
     (if n = 0 then Inr ''0''
      else case LinearBuckets bucketOptions of
        Some lb \<Rightarrow> Inr (FormatInt10 (sint (Offset lb + Width lb * (n - 1))))
      | None \<Rightarrow>
       (case ExponentialBuckets bucketOptions of
          Some eb \<Rightarrow>
            Inr (FormatInt10 (sint (int64_of_float64 fl
                   (times fl (Scale eb) (Pow fl (GrowthFactor eb) (float64_of_int fl (n - 1)))))))
        | None \<Rightarrow>
         (case ExplicitBuckets bucketOptions of
            Some xb \<Rightarrow>
              if 0 \<le> sint n \<and> nat (sint n) < length (Bounds xb)
              then Inr (Sprintf_g fl (Bounds xb ! nat (sint n)))
              else Inl IndexOutOfRange
          | None \<Rightarrow> Inr ''0'')))"


section \<open>Field configuration\<close>

definition cloudMonitoringUnitMappings :: "string \<rightharpoonup> string" where
  "cloudMonitoringUnitMappings = map_of
     [(''bit'', ''bits''),
      (''By'', ''bytes''),
      (''s'', ''s''),
      (''min'', ''m''),
      (''h'', ''h''),
      (''d'', ''d''),
      (''us'', [CHR 0xC2, CHR 0xB5, CHR ''s'']),
      (''ms'', ''ms''),
      (''ns'', ''ns''),
      (''%'', ''percent''),
      (''percent'', ''percent''),
      (''MiBy'', ''mbytes''),
      (''By/s'', ''Bps''),
      (''GBy'', ''decgbytes'')]"

text \<open>
  The frames, fields, field configurations and data links of the plugin SDK, with the
  members that \<open>addConfigData\<close> touches. A field configuration that is absent is the
  nil pointer.
\<close>

record DataLink =
  Title :: string
  TargetBlank :: bool
  URL :: string

record FieldConfig =
  Unit :: string
  Links :: "DataLink list"

record Field =
  Name :: string
  Config :: "FieldConfig option"

record Frame =
  Name :: string
  Fields :: "Field list"

text \<open>
  The body of the loop of \<open>addConfigData\<close> for one frame; \<open>Fields[1]\<close> panics on a frame
  of fewer than two fields.
\<close>

definition addConfigFrame :: "string \<Rightarrow> string \<Rightarrow> Frame \<Rightarrow> panic + Frame" where
  "addConfigFrame dl unit frame =
     (if length (Fields frame) \<le> 1 then Inl IndexOutOfRange
      else
        (let field = Fields frame ! 1;
             config = (case Config field of None \<Rightarrow> \<lparr>Unit = '''', Links = []\<rparr> | Some c \<Rightarrow> c);
             deepLink = \<lparr>Title = ''View in Metrics Explorer'', TargetBlank = True, URL = dl\<rparr>;
             config = config\<lparr>Links := Links config @ [deepLink]\<rparr>;
             config =
               (if length unit > 0 then
                  (case cloudMonitoringUnitMappings unit of
                     Some val \<Rightarrow> config\<lparr>Unit := val\<rparr>
                   | None \<Rightarrow> config)
                else config)
         in Inr (frame\<lparr>Fields := (Fields frame)[1 := field\<lparr>Config := Some config\<rparr>]\<rparr>)))"

fun addConfigData :: "Frame list \<Rightarrow> string \<Rightarrow> string \<Rightarrow> panic + Frame list" where
  "addConfigData [] dl unit = Inr []"
| "addConfigData (frame # frames) dl unit =
     (case addConfigFrame dl unit frame of
        Inl p \<Rightarrow> Inl p
      | Inr frame' \<Rightarrow>
         (case addConfigData frames dl unit of
            Inl p \<Rightarrow> Inl p
          | Inr frames' \<Rightarrow> Inr (frame' # frames')))"


section \<open>Service dispatcher\<close>

text \<open>
  A query arrives as a JSON document that the code hands to \<open>json.Unmarshal\<close> with
  four different targets. The document is represented by the four results: the keys at
  which the decoded \<open>map[string]interface{}\<close> holds a value other than nil, the
  legacy \<open>metricQuery\<close>, the \<open>grafanaQuery\<close> and the \<open>QueryModel\<close>; each is an error
  message when the decoding fails. An \<open>error\<close> is its message.
\<close>

record QueryModel =
  Type :: string

record JSON =
  Unmarshal_rawQuery :: "string + string set"
  Unmarshal_metricQuery :: "string + metricQuery"
  Unmarshal_grafanaQuery :: "string + grafanaQuery"
  Unmarshal_QueryModel :: "string + QueryModel"

record DataQuery =
  RefID :: string
  Interval :: int
  TimeRange :: TimeRange
  JSON :: JSON

record QueryDataRequest =
  Queries :: "DataQuery list"

record DataResponse =
  Frames :: "Frame list"
  Error :: "string option"

record QueryDataResponse =
  Responses :: "string \<rightharpoonup> DataResponse"

definition NewQueryDataResponse :: QueryDataResponse where
  "NewQueryDataResponse = \<lparr>Responses = Map.empty\<rparr>"

datatype cloudMonitoringQueryExecutor =
    TimeSeriesFilter cloudMonitoringTimeSeriesFilter
  | TimeSeriesQuery cloudMonitoringTimeSeriesQuery

fun getRefID :: "cloudMonitoringQueryExecutor \<Rightarrow> string" where
  "getRefID (TimeSeriesFilter f) = cloudMonitoringTimeSeriesFilter.RefID f"
| "getRefID (TimeSeriesQuery q) = cloudMonitoringTimeSeriesQuery.RefID q"

text \<open>
  What the service calls and the sources at hand do not define: the formatting of a
  time as RFC 3339 in UTC, \<open>url.Values.Encode\<close>, the helper \<open>toPreprocessorType\<close>, the
  methods \<open>run\<close> and \<open>parseResponse\<close> of the executors (\<open>run\<close> returns the query
  result, the decoded response, the executed query string and an error;
  \<open>parseResponse\<close> writes into the query result and returns an error), the instance
  manager behind \<open>getDSInfo\<close>, the lookup of the default credentials and the annotation
  query. The type \<open>'r\<close> is that of the decoded response of the monitoring API.
\<close>

record datasourceInfo =
  authenticationType :: string
  defaultProject :: string

record credentials =
  Token :: "string + bool"
  ProjectID :: string

record 'r Service =
  Format_RFC3339 :: "int \<Rightarrow> string"
  Encode :: "Values \<Rightarrow> string"
  toPreprocessorType :: "string \<Rightarrow> preprocessorType"
  run :: "cloudMonitoringQueryExecutor \<Rightarrow> DataResponse \<times> 'r \<times> string \<times> string option"
  parseResponse :: "cloudMonitoringQueryExecutor \<Rightarrow> DataResponse \<Rightarrow> 'r \<Rightarrow> string \<Rightarrow>
                      DataResponse \<times> string option"
  getDSInfo :: "string + datasourceInfo"
  FindDefaultCredentials :: "string + credentials"
  executeAnnotationQuery :: "QueryDataRequest \<Rightarrow> datasourceInfo \<Rightarrow>
                               QueryDataResponse option \<times> string option"

definition sloQuery_zero :: sloQuery where
  "sloQuery_zero = \<lparr>sloQuery.ProjectName = '''', sloQuery.AlignmentPeriod = '''',
     sloQuery.AliasBy = '''', SelectorName = '''', ServiceId = '''', SloId = ''''\<rparr>"

definition queryModel :: "DataQuery \<Rightarrow> string + grafanaQuery" where
  "queryModel query =
     (case Unmarshal_rawQuery (JSON query) of
        Inl err \<Rightarrow> Inl err
      | Inr rawQuery \<Rightarrow>
          if ''metricQuery'' \<notin> rawQuery then
            (case Unmarshal_metricQuery (JSON query) of
               Inl err \<Rightarrow> Inl err
             | Inr mq \<Rightarrow>
                 Inr \<lparr>QueryType = metricQueryType, MetricQuery = mq, SloQuery = sloQuery_zero\<rparr>)
          else
            (case Unmarshal_grafanaQuery (JSON query) of
               Inl err \<Rightarrow> Inl err
             | Inr q \<Rightarrow> Inr q))"

text \<open>
  The body of the loop of \<open>buildQueryExecutors\<close> for one query: a panic, an error or
  the executor. \<open>Duration.Milliseconds\<close> is the truncating quotient of the nanoseconds.
\<close>

definition buildQueryExecutor ::
    "'r Service \<Rightarrow> QueryDataRequest \<Rightarrow> int \<Rightarrow> int \<Rightarrow> int \<Rightarrow> DataQuery \<Rightarrow>
     panic + (string + cloudMonitoringQueryExecutor)" where
  "buildQueryExecutor s req startTime endTime durationSeconds query =
     (case queryModel query of
        Inl err \<Rightarrow> Inr (Inl (''could not unmarshal CloudMonitoringQuery json: '' @ err))
      | Inr q \<Rightarrow>
         (let mq = (MetricQuery q)\<lparr>PreprocessorType :=
                      toPreprocessorType s (Preprocessor (MetricQuery q))\<rparr>;
              sq = SloQuery q;
              params = Map.empty;
              params = Add params ''interval.startTime'' (Format_RFC3339 s startTime);
              params = Add params ''interval.endTime'' (Format_RFC3339 s endTime);
              cmtsf = \<lparr>Target = '''', Params = Map.empty,
                       cloudMonitoringTimeSeriesFilter.RefID = DataQuery.RefID query,
                       cloudMonitoringTimeSeriesFilter.GroupBys = [],
                       cloudMonitoringTimeSeriesFilter.AliasBy = '''',
                       cloudMonitoringTimeSeriesFilter.ProjectName = '''',
                       Selector = '''', Service = '''', Slo = ''''\<rparr>
          in if QueryType q = metricQueryType then
               (if EditorMode mq = mqlEditorMode then
                  Inr (Inr (TimeSeriesQuery
                    \<lparr>cloudMonitoringTimeSeriesQuery.RefID = DataQuery.RefID query,
                     cloudMonitoringTimeSeriesQuery.ProjectName = metricQuery.ProjectName mq,
                     cloudMonitoringTimeSeriesQuery.Query = metricQuery.Query mq,
                     IntervalMS = Interval query sdiv 1000000,
                     cloudMonitoringTimeSeriesQuery.AliasBy = metricQuery.AliasBy mq,
                     timeRange = TimeRange (hd (Queries req))\<rparr>))
                else
                  (let cmtsf = cmtsf\<lparr>cloudMonitoringTimeSeriesFilter.AliasBy :=
                                        metricQuery.AliasBy mq\<rparr>;
                       cmtsf = cmtsf\<lparr>cloudMonitoringTimeSeriesFilter.ProjectName :=
                                        metricQuery.ProjectName mq\<rparr>;
                       cmtsf = cmtsf\<lparr>cloudMonitoringTimeSeriesFilter.GroupBys :=
                                        cloudMonitoringTimeSeriesFilter.GroupBys cmtsf
                                          @ metricQuery.GroupBys mq\<rparr>;
                       mq = (if View mq = '''' then mq\<lparr>View := ''FULL''\<rparr> else mq);
                       params = Add params ''filter''
                                  (buildFilterString (MetricType mq) (Filters mq));
                       params = Add params ''view'' (View mq);
                       params = fst (setMetricAggParams params mq durationSeconds
                                       (Interval query sdiv 1000000))
                   in Inr (Inr (TimeSeriesFilter
                        (cmtsf\<lparr>Target := Encode s params, Params := params\<rparr>)))))
             else if QueryType q = sloQueryType then
               (let cmtsf = cmtsf\<lparr>cloudMonitoringTimeSeriesFilter.AliasBy := sloQuery.AliasBy sq\<rparr>;
                    cmtsf = cmtsf\<lparr>cloudMonitoringTimeSeriesFilter.ProjectName :=
                                     sloQuery.ProjectName sq\<rparr>;
                    cmtsf = cmtsf\<lparr>Selector := SelectorName sq\<rparr>;
                    cmtsf = cmtsf\<lparr>Service := ServiceId sq\<rparr>;
                    cmtsf = cmtsf\<lparr>Slo := SloId sq\<rparr>;
                    params = Add params ''filter'' (buildSLOFilterExpression sq);
                    params = setSloAggParams params sq durationSeconds
                               (Interval query sdiv 1000000)
                in Inr (Inr (TimeSeriesFilter
                     (cmtsf\<lparr>Target := Encode s params, Params := params\<rparr>))))
             else Inl (UnrecognizedQueryType (QueryType q))))"

fun buildQueryExecutors_loop ::
    "'r Service \<Rightarrow> QueryDataRequest \<Rightarrow> int \<Rightarrow> int \<Rightarrow> int \<Rightarrow> DataQuery list \<Rightarrow>
     panic + (string + cloudMonitoringQueryExecutor list)" where
  "buildQueryExecutors_loop s req startTime endTime durationSeconds [] = Inr (Inr [])"
| "buildQueryExecutors_loop s req startTime endTime durationSeconds (query # queries) =
     (case buildQueryExecutor s req startTime endTime durationSeconds query of
        Inl p \<Rightarrow> Inl p
      | Inr (Inl err) \<Rightarrow> Inr (Inl err)
      | Inr (Inr queryInterface) \<Rightarrow>
         (case buildQueryExecutors_loop s req startTime endTime durationSeconds queries of
            Inl p \<Rightarrow> Inl p
          | Inr (Inl err) \<Rightarrow> Inr (Inl err)
          | Inr (Inr executors) \<Rightarrow> Inr (Inr (queryInterface # executors))))"

text \<open>
  \<open>req.Queries[0]\<close> panics on a request without queries. The duration in seconds is
  the truncated quotient of the nanoseconds between the two times.
\<close>

definition buildQueryExecutors ::
    "'r Service \<Rightarrow> QueryDataRequest \<Rightarrow> panic + (string + cloudMonitoringQueryExecutor list)" where
  "buildQueryExecutors s req =
     (case Queries req of
        [] \<Rightarrow> Inl IndexOutOfRange
      | query0 # _ \<Rightarrow>
         (let startTime = From (TimeRange query0);
              endTime = To (TimeRange query0);
              durationSeconds = go_int (of_int (endTime - startTime) / 1000000000)
          in buildQueryExecutors_loop s req startTime endTime durationSeconds (Queries req)))"

text \<open>The body of the loop of \<open>executeTimeSeriesQuery\<close> once \<open>run\<close> has returned no error.\<close>

definition parsedResult ::
    "'r Service \<Rightarrow> cloudMonitoringQueryExecutor \<Rightarrow> DataResponse \<Rightarrow> 'r \<Rightarrow> string \<Rightarrow> DataResponse" where
  "parsedResult s queryExecutor queryRes dr executedQueryString =
     (case parseResponse s queryExecutor queryRes dr executedQueryString of
        (queryRes, None) \<Rightarrow> queryRes
      | (queryRes, Some err) \<Rightarrow> queryRes\<lparr>Error := Some err\<rparr>)"

fun executeTimeSeriesQuery_loop ::
    "'r Service \<Rightarrow> cloudMonitoringQueryExecutor list \<Rightarrow> QueryDataResponse \<Rightarrow>
     QueryDataResponse \<times> string option" where
  "executeTimeSeriesQuery_loop s [] resp = (resp, None)"
| "executeTimeSeriesQuery_loop s (queryExecutor # rest) resp =
     (case run s queryExecutor of
        (queryRes, dr, executedQueryString, Some err) \<Rightarrow> (resp, Some err)
      | (queryRes, dr, executedQueryString, None) \<Rightarrow>
          executeTimeSeriesQuery_loop s rest
            (resp\<lparr>Responses := (Responses resp)
               (getRefID queryExecutor \<mapsto>
                  parsedResult s queryExecutor queryRes dr executedQueryString)\<rparr>))"

definition executeTimeSeriesQuery ::
    "'r Service \<Rightarrow> QueryDataRequest \<Rightarrow> panic + (QueryDataResponse \<times> string option)" where
  "executeTimeSeriesQuery s req =
     (case buildQueryExecutors s req of
        Inl p \<Rightarrow> Inl p
      | Inr (Inl err) \<Rightarrow> Inr (NewQueryDataResponse, Some err)
      | Inr (Inr queryExecutors) \<Rightarrow>
          Inr (executeTimeSeriesQuery_loop s queryExecutors NewQueryDataResponse))"






section \<open>Remote calls\<close>

text \<open>
  An HTTP response as \<open>unmarshalResponse\<close> reads it: the status code, and the body as
  \<open>ioutil.ReadAll\<close> returns it (the bytes or an error). \<open>json.Unmarshal\<close> into the
  response structure is a parameter.
\<close>

record Response =
  StatusCode :: int
  Body :: "string + string"

definition unmarshalResponse :: "(string \<Rightarrow> string + 'r) \<Rightarrow> Response \<Rightarrow> string + 'r" where
  "unmarshalResponse json_Unmarshal res =
     (case Body res of
        Inl err \<Rightarrow> Inl err
      | Inr body \<Rightarrow>
          if StatusCode res sdiv 100 \<noteq> 2 then Inl (''query failed: '' @ body)
          else
            (case json_Unmarshal body of
               Inl err \<Rightarrow> Inl (''failed to unmarshal query response: '' @ err)
             | Inr data \<Rightarrow> Inr data))"

text \<open>
  Modelled from the spec: the methods \<open>run\<close> and \<open>parseResponse\<close> of the executors are
  not in the sources at hand. By the specification an executor issues one call of the
  remote API; a remote call failure (a transport error or a status other than 2xx) or
  an unparseable response body is attached to the result of that query as its error
  and is not returned as the error of the batch; \<open>parseResponse\<close> converts the decoded
  response into the frames of the query result and reports a conversion error beside
  them. The remote side is a record: the outcome of the call of each executor, the
  decoding of a body, the empty response, the conversion into frames and the executed
  query string.
\<close>

datatype remoteResult = TransportError string | HTTPResponse Response

record 'r remote =
  Do :: "cloudMonitoringQueryExecutor \<Rightarrow> remoteResult"
  json_Unmarshal :: "string \<Rightarrow> string + 'r"
  emptyResponse :: 'r
  toFrames :: "cloudMonitoringQueryExecutor \<Rightarrow> 'r \<Rightarrow> string \<Rightarrow> Frame list \<times> string option"
  RawQuery :: "cloudMonitoringQueryExecutor \<Rightarrow> string"

definition run_spec ::
    "'r remote \<Rightarrow> cloudMonitoringQueryExecutor \<Rightarrow> DataResponse \<times> 'r \<times> string \<times> string option" where
  "run_spec w queryExecutor =
     (let dr = \<lparr>Frames = [], Error = None\<rparr> in
      case Do w queryExecutor of
        TransportError err \<Rightarrow> (dr\<lparr>Error := Some err\<rparr>, emptyResponse w, '''', None)
      | HTTPResponse res \<Rightarrow>
         (case unmarshalResponse (json_Unmarshal w) res of
            Inl err \<Rightarrow> (dr\<lparr>Error := Some err\<rparr>, emptyResponse w, '''', None)
          | Inr d \<Rightarrow> (dr, d, RawQuery w queryExecutor, None)))"

definition parseResponse_spec ::
    "'r remote \<Rightarrow> cloudMonitoringQueryExecutor \<Rightarrow> DataResponse \<Rightarrow> 'r \<Rightarrow> string \<Rightarrow>
     DataResponse \<times> string option" where
  "parseResponse_spec w queryExecutor queryRes response executedQueryString =
     (case toFrames w queryExecutor response executedQueryString of
        (frames, err) \<Rightarrow> (queryRes\<lparr>Frames := frames\<rparr>, err))"


section \<open>Properties of the filter builder\<close>


lemma Contains_single: "Contains s [c] = (c \<in> set s)"
  by (induction s) auto


lemma Replace1_absent: "c \<notin> set s \<Longrightarrow> Replace1 s [c] new = s"
  by (induction s) auto

lemma Replace1_head: "Replace1 (c # s) [c] new = new @ s"
  by simp




lemma Trim_clause:
  assumes "c \<noteq> CHR '' ''"
  shows "Trim (c # P @ [dquote] @ CHR '' '' # fs) CHR '' '' =
     (if \<forall>x\<in>set fs. x = CHR '' '' then c # P @ [dquote]
      else c # P @ [dquote] @ CHR '' '' # rev (dropWhile (\<lambda>x. x = CHR '' '') (rev fs)))"
  using assms by (simp add: Trim_def dropWhile_append dquote_def)

lemma filterLoop_append:
  "filterLoop fp i (xs @ ys) acc = filterLoop fp (i + length xs) ys (filterLoop fp i xs acc)"
  by (induction xs arbitrary: i acc) auto












lemma loop_take_Suc:
  assumes "i < length fp"
  shows "filterLoop fp 0 (take (Suc i) fp) [] =
         filterStep fp i (fp ! i) (filterLoop fp 0 (take i fp) [])"
  using assms by (simp add: take_Suc_conv_app_nth filterLoop_append)






lemma value_literal:
  assumes "i < length fp" and "i mod 4 = 2" and "CHR ''*'' \<notin> set (fp ! i)"
    and "fp ! i \<noteq> ''AND''"
    and "fp ! (i - 1) \<noteq> ''=~''" and "fp ! (i - 1) \<noteq> ''!=~''"
  shows \<open>filterLoop fp 0 (take (Suc i) fp) [] =
         filterLoop fp 0 (take i fp) [] @ ''"'' @ fp ! i @ ''"''\<close>
  unfolding loop_take_Suc [OF assms(1)]
  using assms(2-6) by (simp add: filterStep_def Contains_single)

lemma build_prefix:
  \<open>prefix (''metric.type="'' @ metricType @ ''"'') (buildFilterString metricType filterParts)\<close>
proof -
  have \<open>buildFilterString metricType filterParts =
        Trim (CHR ''m'' # (''etric.type="'' @ metricType) @ [dquote] @ CHR '' '' #
              filterLoop filterParts 0 filterParts []) CHR '' ''\<close>
    by (simp add: buildFilterString_def dquote_def)
  also have \<open>\<dots> = (if \<forall>x\<in>set (filterLoop filterParts 0 filterParts []). x = CHR '' ''
        then CHR ''m'' # (''etric.type="'' @ metricType) @ [dquote]
        else CHR ''m'' # (''etric.type="'' @ metricType) @ [dquote] @ CHR '' '' #
          rev (dropWhile (\<lambda>x. x = CHR '' '') (rev (filterLoop filterParts 0 filterParts []))))\<close>
    by (rule Trim_clause) simp
  finally show ?thesis
    by (simp add: dquote_def)
qed

lemma build_empty:
  \<open>buildFilterString metricType [] = ''metric.type="'' @ metricType @ ''"''\<close>
  by (simp add: buildFilterString_def Trim_def dropWhile_append)


lemma single_group:
  assumes "key \<noteq> ''AND''" and "operator \<noteq> ''AND''"
  shows "filterLoop [key, operator, val] 0 [key, operator, val] [] =
         filterStep [key, operator, val] 2 val (key @ operator)"
  using assms by (simp add: filterStep_def numeral_2_eq_2)

lemma Trim_closed:
  assumes "c \<noteq> CHR '' ''" and "d \<noteq> CHR '' ''"
  shows "Trim (c # xs @ [d]) CHR '' '' = c # xs @ [d]"
  using assms by (simp add: Trim_def)




text \<open>
  Claim C6, as amended. The output of \<open>buildFilterString\<close> begins with the clause
  \<open>metric.type="<metricType>"\<close>; for the empty token list it is that clause and nothing
  else; and a value without asterisk, other than the token \<open>AND\<close>, under an operator
  other than \<open>=~\<close> and \<open>!=~\<close>, is appended to the filter string between double
  quotes, so that a single group of key, operator and value is rendered as
  \<open>metric.type="<metricType>" key operator "value"\<close>.
\<close>

theorem buildFilterString_clauses:
  \<open>prefix (''metric.type="'' @ metricType @ ''"'') (buildFilterString metricType filterParts) \<and>
   buildFilterString metricType [] = ''metric.type="'' @ metricType @ ''"'' \<and>
   (i < length fp \<and> i mod 4 = 2 \<and> CHR ''*'' \<notin> set (fp ! i) \<and> fp ! i \<noteq> ''AND'' \<and>
    fp ! (i - 1) \<noteq> ''=~'' \<and> fp ! (i - 1) \<noteq> ''!=~'' \<longrightarrow>
      filterLoop fp 0 (take (Suc i) fp) [] =
        filterLoop fp 0 (take i fp) [] @ ''"'' @ fp ! i @ ''"'') \<and>
   (key \<noteq> ''AND'' \<and> operator \<noteq> ''AND'' \<and> operator \<noteq> ''=~'' \<and> operator \<noteq> ''!=~'' \<and>
    val \<noteq> ''AND'' \<and> CHR ''*'' \<notin> set val \<longrightarrow>
      buildFilterString metricType [key, operator, val] =
        ''metric.type="'' @ metricType @ ''" '' @ key @ operator @ ''"'' @ val @ ''"'')\<close>
proof -
  have group: \<open>buildFilterString metricType [key, operator, val] =
        ''metric.type="'' @ metricType @ ''" '' @ key @ operator @ ''"'' @ val @ ''"''\<close>
    if h: "key \<noteq> ''AND''" "operator \<noteq> ''AND''" "operator \<noteq> ''=~''" "operator \<noteq> ''!=~''"
      "val \<noteq> ''AND''" "CHR ''*'' \<notin> set val"
  proof -
    have loop: \<open>filterLoop [key, operator, val] 0 [key, operator, val] [] =
          key @ operator @ ''"'' @ val @ ''"''\<close>
      unfolding single_group [OF h(1) h(2)]
      using h by (simp add: filterStep_def Contains_single)
    have \<open>Trim (CHR ''m'' # (''etric.type="'' @ metricType @ ''" '' @ key @ operator @ ''"''
                  @ val) @ [CHR 0x22]) CHR '' '' =
          CHR ''m'' # (''etric.type="'' @ metricType @ ''" '' @ key @ operator @ ''"''
                  @ val) @ [CHR 0x22]\<close>
      by (rule Trim_closed) simp_all
    then show ?thesis
      unfolding buildFilterString_def Let_def loop by simp
  qed
  show ?thesis
    using build_prefix [of metricType filterParts] build_empty [of metricType]
      value_literal [of i fp] group
    by blast
qed

theorem buildFilterString_clauses_witness:
  \<open>filterLoop [''zone'', ''='', ''us'', ''AND'', ''tier'', ''!='', ''low''] 0
       (take 7 [''zone'', ''='', ''us'', ''AND'', ''tier'', ''!='', ''low'']) [] =
     filterLoop [''zone'', ''='', ''us'', ''AND'', ''tier'', ''!='', ''low''] 0
       (take 6 [''zone'', ''='', ''us'', ''AND'', ''tier'', ''!='', ''low'']) [] @ ''"low"'' \<and>
   buildFilterString ''m'' [''zone'', ''='', ''us''] = ''metric.type="m" zone="us"''\<close>
proof -
  have a: \<open>filterLoop [''zone'', ''='', ''us'', ''AND'', ''tier'', ''!='', ''low''] 0
       (take (Suc 6) [''zone'', ''='', ''us'', ''AND'', ''tier'', ''!='', ''low'']) [] =
     filterLoop [''zone'', ''='', ''us'', ''AND'', ''tier'', ''!='', ''low''] 0
       (take 6 [''zone'', ''='', ''us'', ''AND'', ''tier'', ''!='', ''low'']) [] @ ''"low"''\<close>
    using buildFilterString_clauses
      [of _ _ 6 "[''zone'', ''='', ''us'', ''AND'', ''tier'', ''!='', ''low'']"]
    by simp
  have b: \<open>buildFilterString ''m'' [''zone'', ''='', ''us''] = ''metric.type="m" zone="us"''\<close>
    using buildFilterString_clauses [of "''m''" _ _ _ "''zone''" "''=''" "''us''"]
    by simp
  have "Suc 6 = 7" by simp
  with a b show ?thesis by metis
qed

theorem buildFilterString_clauses_counterexample:
  \<open>buildFilterString ''m'' [''zone'', ''=~'', ''us''] =
     ''metric.type="m" zone=monitoring.regex.full_match("us")''\<close>
  by (simp add: buildFilterString_def filterStep_def Trim_def reverse_def)


section \<open>Properties of the alignment period\<close>

lemma go_int_of_int: "go_int (of_int i) = i"
  by (simp add: go_int_def)

lemma floor_max: "\<lfloor>max (x::rat) y\<rfloor> = max \<lfloor>x\<rfloor> \<lfloor>y\<rfloor>"
  by (metis floor_mono max.absorb1 max.absorb2 linear)

lemma go_int_max: "go_int (max (of_int i / 1000) 60) = max (i div 1000) 60"
proof -
  have "max (rat_of_int i / 1000) 60 \<ge> 0" by simp
  then have "go_int (max (of_int i / 1000) 60) = \<lfloor>max (rat_of_int i / 1000) 60\<rfloor>"
    by (simp add: go_int_def)
  also have "\<dots> = max \<lfloor>rat_of_int i / 1000\<rfloor> \<lfloor>60::rat\<rfloor>"
    by (rule floor_max)
  also have "\<lfloor>rat_of_int i / 1000\<rfloor> = i div 1000"
    using floor_divide_of_int_eq [of i 1000, where ?'a = rat] by simp
  finally show ?thesis by simp
qed

lemma go_int_max_of_int: "go_int (max (of_int d) 60) = max d 60"
proof -
  have "max (rat_of_int d) 60 = rat_of_int (max d 60)" by (simp add: max_def)
  then show ?thesis by (simp only: go_int_of_int)
qed

lemma calculateAlignmentPeriod_eq:
  "calculateAlignmentPeriod spec intervalMs durationSeconds =
     (if spec = ''grafana-auto'' \<or> spec = '''' then
        ''+'' @ Itoa (max (intervalMs div 1000) 60) @ ''s''
      else if spec = ''cloud-monitoring-auto'' \<or> spec = ''stackdriver-auto'' then
        (if max durationSeconds 60 < 82800 then ''+60s''
         else if max durationSeconds 60 < 518400 then ''+300s'' else ''+3600s'')
      else spec)"
  unfolding calculateAlignmentPeriod_def Let_def go_int_max go_int_max_of_int
  by simp

text \<open>
  Claim C5, as amended. For an interval in milliseconds and a duration in seconds of
  magnitude at most \<open>2^53\<close> (where the conversion to \<open>float64\<close> is exact):
  for the specification \<open>grafana-auto\<close> and for the empty specification the result is
  \<open>+<n>s\<close> with \<open>n\<close> the larger of \<open>60\<close> and the whole seconds of the interval; for
  \<open>stackdriver-auto\<close> and \<open>cloud-monitoring-auto\<close>, with the duration raised to at
  least \<open>60\<close> seconds, it is \<open>+60s\<close> below 23 hours, \<open>+300s\<close> below 6 days and \<open>+3600s\<close>
  otherwise; every other specification is returned unchanged; and the two calls of
  the specification's examples give \<open>+300s\<close> and \<open>+60s\<close>.
\<close>

theorem calculateAlignmentPeriod_cases:
  assumes "\<bar>intervalMs\<bar> \<le> 2 ^ 53" and "\<bar>durationSeconds\<bar> \<le> 2 ^ 53"
  shows
    "(spec = ''grafana-auto'' \<or> spec = '''' \<longrightarrow>
        calculateAlignmentPeriod spec intervalMs durationSeconds =
          ''+'' @ Itoa (max (intervalMs div 1000) 60) @ ''s'') \<and>
     (spec = ''stackdriver-auto'' \<or> spec = ''cloud-monitoring-auto'' \<longrightarrow>
        calculateAlignmentPeriod spec intervalMs durationSeconds =
          (if max durationSeconds 60 < 23 * 3600 then ''+60s''
           else if max durationSeconds 60 < 6 * 24 * 3600 then ''+300s''
           else ''+3600s'')) \<and>
     (spec \<noteq> ''grafana-auto'' \<and> spec \<noteq> '''' \<and> spec \<noteq> ''stackdriver-auto'' \<and>
      spec \<noteq> ''cloud-monitoring-auto'' \<longrightarrow>
        calculateAlignmentPeriod spec intervalMs durationSeconds = spec) \<and>
     calculateAlignmentPeriod ''stackdriver-auto'' 0 90000 = ''+300s'' \<and>
     calculateAlignmentPeriod ''grafana-auto'' 15000 3600 = ''+60s''"
  by (simp add: calculateAlignmentPeriod_eq Itoa_def FormatInt10_def)

theorem calculateAlignmentPeriod_cases_witness:
  "\<bar>125999 :: int\<bar> \<le> 2 ^ 53 \<and> \<bar>600000 :: int\<bar> \<le> 2 ^ 53 \<and>
   calculateAlignmentPeriod ''grafana-auto'' 125999 600000 = ''+125s'' \<and>
   calculateAlignmentPeriod ''cloud-monitoring-auto'' 125999 600000 = ''+3600s'' \<and>
   calculateAlignmentPeriod ''+10s'' 125999 600000 = ''+10s''"
proof -
  have r: "\<bar>125999 :: int\<bar> \<le> 2 ^ 53" "\<bar>600000 :: int\<bar> \<le> 2 ^ 53"
    by simp_all
  have a: "calculateAlignmentPeriod ''grafana-auto'' 125999 600000 = ''+125s''"
    using calculateAlignmentPeriod_cases [OF r, of "''grafana-auto''"]
    by (simp add: Itoa_def FormatInt10_def)
  have b: "calculateAlignmentPeriod ''cloud-monitoring-auto'' 125999 600000 = ''+3600s''"
    using calculateAlignmentPeriod_cases [OF r, of "''cloud-monitoring-auto''"]
    by simp
  have c: "calculateAlignmentPeriod ''+10s'' 125999 600000 = ''+10s''"
    using calculateAlignmentPeriod_cases [OF r, of "''+10s''"]
    by simp
  from r a b c show ?thesis by blast
qed

theorem calculateAlignmentPeriod_cases_counterexample:
  "calculateAlignmentPeriod '''' 15000 3600 = ''+60s''"
  by (simp add: calculateAlignmentPeriod_eq Itoa_def FormatInt10_def)


section \<open>Properties of the aggregation parameters\<close>

lemma valuesOf_Add:
  "valuesOf (Add p k v) k' = (if k' = k then valuesOf p k @ [v] else valuesOf p k')"
  by (simp add: Add_def valuesOf_def)

lemma valuesOf_foldl_Add:
  "valuesOf (foldl (\<lambda>p g. Add p k g) p gs) k' =
     (if k' = k then valuesOf p k @ gs else valuesOf p k')"
  by (induction gs arbitrary: p) (simp_all add: valuesOf_Add)

lemma Add_other: "k' \<noteq> k \<Longrightarrow> Add p k v k' = p k'"
  by (simp add: Add_def)

lemma foldl_Add_other: "k' \<noteq> k \<Longrightarrow> foldl (\<lambda>p g. Add p k g) p gs k' = p k'"
  by (induction gs arbitrary: p) (simp_all add: Add_other)

lemma agg_with_preprocessor:
  assumes "metricQuery.PreprocessorType query \<noteq> PreprocessorTypeNone"
  shows "fst (setMetricAggParams params query durationSeconds intervalMs) =
    (let reducer = (if metricQuery.CrossSeriesReducer query = '''' then crossSeriesReducerDefault
                    else metricQuery.CrossSeriesReducer query);
         aligner = (if metricQuery.PerSeriesAligner query = '''' then perSeriesAlignerDefault
                    else metricQuery.PerSeriesAligner query);
         period = calculateAlignmentPeriod (metricQuery.AlignmentPeriod query) intervalMs
                    durationSeconds;
         p1 = Add params ''secondaryAggregation.alignmentPeriod'' period;
         p2 = Add p1 ''secondaryAggregation.crossSeriesReducer'' reducer;
         p3 = Add p2 ''secondaryAggregation.perSeriesAligner'' aligner;
         p4 = Add p3 ''aggregation.crossSeriesReducer''
                (if metricQuery.GroupBys query = [] then crossSeriesReducerDefault else reducer);
         p5 = Add p4 ''aggregation.perSeriesAligner''
                (if metricQuery.PreprocessorType query = PreprocessorTypeDelta
                 then ''ALIGN_DELTA'' else ''ALIGN_RATE'');
         p6 = foldl (\<lambda>p g. Add p ''secondaryAggregation.groupByFields'' g) p5
                (metricQuery.GroupBys query);
         p7 = Add p6 ''aggregation.alignmentPeriod'' period
     in foldl (\<lambda>p g. Add p ''aggregation.groupByFields'' g) p7 (metricQuery.GroupBys query))"
  using assms by (simp add: setMetricAggParams_def Let_def)

lemma agg_without_preprocessor:
  assumes "metricQuery.PreprocessorType query = PreprocessorTypeNone"
  shows "fst (setMetricAggParams params query durationSeconds intervalMs) =
    (let reducer = (if metricQuery.CrossSeriesReducer query = '''' then crossSeriesReducerDefault
                    else metricQuery.CrossSeriesReducer query);
         aligner = (if metricQuery.PerSeriesAligner query = '''' then perSeriesAlignerDefault
                    else metricQuery.PerSeriesAligner query);
         period = calculateAlignmentPeriod (metricQuery.AlignmentPeriod query) intervalMs
                    durationSeconds;
         p1 = Add params ''aggregation.crossSeriesReducer'' reducer;
         p2 = Add p1 ''aggregation.perSeriesAligner'' aligner;
         p3 = Add p2 ''aggregation.alignmentPeriod'' period
     in foldl (\<lambda>p g. Add p ''aggregation.groupByFields'' g) p3 (metricQuery.GroupBys query))"
  using assms by (simp add: setMetricAggParams_def Let_def)

text \<open>
  Claim C3. \<open>valuesOf p k\<close> is the list of the values of the key \<open>k\<close> in the
  parameters \<open>p\<close>, and setting a parameter appends to it. The reducer and the aligner
  of the user are the fields \<open>CrossSeriesReducer\<close> and \<open>PerSeriesAligner\<close> of the query,
  with \<open>REDUCE_NONE\<close> and \<open>ALIGN_MEAN\<close> in the place of an empty field. With a
  preprocessor, \<open>aggregation.perSeriesAligner\<close> is set to \<open>ALIGN_DELTA\<close> for Delta and
  to \<open>ALIGN_RATE\<close> otherwise, \<open>aggregation.crossSeriesReducer\<close> to the default reducer
  unless there are group-by fields, and then to the reducer of the user, and the
  \<open>secondaryAggregation\<close> parameters carry the reducer, the aligner, the group-by
  fields and the alignment period of the user. Without a preprocessor the reducer and
  the aligner of the user are set under \<open>aggregation\<close> and no key outside the four
  \<open>aggregation\<close> keys changes. In both cases \<open>aggregation.alignmentPeriod\<close> and
  \<open>aggregation.groupByFields\<close> are set from the query.
\<close>

theorem setMetricAggParams_stages:
  "(let reducer = (if metricQuery.CrossSeriesReducer query = '''' then crossSeriesReducerDefault
                   else metricQuery.CrossSeriesReducer query);
        aligner = (if metricQuery.PerSeriesAligner query = '''' then perSeriesAlignerDefault
                   else metricQuery.PerSeriesAligner query);
        period = calculateAlignmentPeriod (metricQuery.AlignmentPeriod query) intervalMs
                   durationSeconds;
        groupBys = metricQuery.GroupBys query;
        params' = fst (setMetricAggParams params query durationSeconds intervalMs)
    in (metricQuery.PreprocessorType query \<noteq> PreprocessorTypeNone \<longrightarrow>
          valuesOf params' ''aggregation.perSeriesAligner'' =
            valuesOf params ''aggregation.perSeriesAligner'' @
              [if metricQuery.PreprocessorType query = PreprocessorTypeDelta
               then ''ALIGN_DELTA'' else ''ALIGN_RATE''] \<and>
          valuesOf params' ''aggregation.crossSeriesReducer'' =
            valuesOf params ''aggregation.crossSeriesReducer'' @
              [if groupBys = [] then crossSeriesReducerDefault else reducer] \<and>
          valuesOf params' ''secondaryAggregation.crossSeriesReducer'' =
            valuesOf params ''secondaryAggregation.crossSeriesReducer'' @ [reducer] \<and>
          valuesOf params' ''secondaryAggregation.perSeriesAligner'' =
            valuesOf params ''secondaryAggregation.perSeriesAligner'' @ [aligner] \<and>
          valuesOf params' ''secondaryAggregation.groupByFields'' =
            valuesOf params ''secondaryAggregation.groupByFields'' @ groupBys \<and>
          valuesOf params' ''secondaryAggregation.alignmentPeriod'' =
            valuesOf params ''secondaryAggregation.alignmentPeriod'' @ [period]) \<and>
       (metricQuery.PreprocessorType query = PreprocessorTypeNone \<longrightarrow>
          valuesOf params' ''aggregation.crossSeriesReducer'' =
            valuesOf params ''aggregation.crossSeriesReducer'' @ [reducer] \<and>
          valuesOf params' ''aggregation.perSeriesAligner'' =
            valuesOf params ''aggregation.perSeriesAligner'' @ [aligner] \<and>
          (\<forall>key. key \<notin> {''aggregation.crossSeriesReducer'', ''aggregation.perSeriesAligner'',
                          ''aggregation.alignmentPeriod'', ''aggregation.groupByFields''} \<longrightarrow>
                 params' key = params key)) \<and>
       valuesOf params' ''aggregation.alignmentPeriod'' =
         valuesOf params ''aggregation.alignmentPeriod'' @ [period] \<and>
       valuesOf params' ''aggregation.groupByFields'' =
         valuesOf params ''aggregation.groupByFields'' @ groupBys)"
proof (cases "metricQuery.PreprocessorType query = PreprocessorTypeNone")
  case True
  show ?thesis
    unfolding Let_def agg_without_preprocessor [OF True, unfolded Let_def]
    using True by (simp add: valuesOf_Add valuesOf_foldl_Add Add_other foldl_Add_other)
next
  case False
  show ?thesis
    unfolding Let_def agg_with_preprocessor [OF False, unfolded Let_def]
    using False by (simp add: valuesOf_Add valuesOf_foldl_Add)
qed

theorem setMetricAggParams_stages_witness:
  "(let delta = \<lparr>metricQuery.ProjectName = ''p'', MetricType = ''m'',
                  CrossSeriesReducer = ''REDUCE_SUM'', metricQuery.AlignmentPeriod = ''+60s'',
                  PerSeriesAligner = ''ALIGN_MAX'', metricQuery.GroupBys = [], Filters = [],
                  metricQuery.AliasBy = '''', View = ''FULL'', EditorMode = '''',
                  metricQuery.Query = '''', Preprocessor = ''delta'',
                  PreprocessorType = PreprocessorTypeDelta\<rparr>;
        p = fst (setMetricAggParams Map.empty delta 3600 15000);
        q = fst (setMetricAggParams Map.empty
                   (delta\<lparr>PreprocessorType := PreprocessorTypeNone\<rparr>) 3600 15000)
    in valuesOf p ''aggregation.perSeriesAligner'' = [''ALIGN_DELTA''] \<and>
       valuesOf p ''aggregation.crossSeriesReducer'' = [''REDUCE_NONE''] \<and>
       valuesOf p ''secondaryAggregation.crossSeriesReducer'' = [''REDUCE_SUM''] \<and>
       valuesOf p ''secondaryAggregation.perSeriesAligner'' = [''ALIGN_MAX''] \<and>
       valuesOf q ''aggregation.crossSeriesReducer'' = [''REDUCE_SUM''] \<and>
       valuesOf q ''aggregation.perSeriesAligner'' = [''ALIGN_MAX''] \<and>
       q ''secondaryAggregation.crossSeriesReducer'' = None)"
proof -
  define delta where "delta = \<lparr>metricQuery.ProjectName = ''p'', MetricType = ''m'',
                  CrossSeriesReducer = ''REDUCE_SUM'', metricQuery.AlignmentPeriod = ''+60s'',
                  PerSeriesAligner = ''ALIGN_MAX'', metricQuery.GroupBys = [], Filters = [],
                  metricQuery.AliasBy = '''', View = ''FULL'', EditorMode = '''',
                  metricQuery.Query = '''', Preprocessor = ''delta'',
                  PreprocessorType = PreprocessorTypeDelta\<rparr>"
  have a: "valuesOf (fst (setMetricAggParams Map.empty delta 3600 15000))
             ''aggregation.perSeriesAligner'' = [''ALIGN_DELTA''] \<and>
       valuesOf (fst (setMetricAggParams Map.empty delta 3600 15000))
         ''aggregation.crossSeriesReducer'' = [''REDUCE_NONE''] \<and>
       valuesOf (fst (setMetricAggParams Map.empty delta 3600 15000))
         ''secondaryAggregation.crossSeriesReducer'' = [''REDUCE_SUM''] \<and>
       valuesOf (fst (setMetricAggParams Map.empty delta 3600 15000))
         ''secondaryAggregation.perSeriesAligner'' = [''ALIGN_MAX'']"
    using setMetricAggParams_stages [of delta 15000 3600 Map.empty]
    by (simp add: Let_def delta_def valuesOf_def crossSeriesReducerDefault_def)
  have b: "valuesOf (fst (setMetricAggParams Map.empty
                   (delta\<lparr>PreprocessorType := PreprocessorTypeNone\<rparr>) 3600 15000))
             ''aggregation.crossSeriesReducer'' = [''REDUCE_SUM''] \<and>
       valuesOf (fst (setMetricAggParams Map.empty
                   (delta\<lparr>PreprocessorType := PreprocessorTypeNone\<rparr>) 3600 15000))
         ''aggregation.perSeriesAligner'' = [''ALIGN_MAX''] \<and>
       fst (setMetricAggParams Map.empty
                   (delta\<lparr>PreprocessorType := PreprocessorTypeNone\<rparr>) 3600 15000)
         ''secondaryAggregation.crossSeriesReducer'' = None"
    using setMetricAggParams_stages
      [of "delta\<lparr>PreprocessorType := PreprocessorTypeNone\<rparr>" 15000 3600 Map.empty]
    by (simp add: Let_def delta_def valuesOf_def)
  from a b show ?thesis
    unfolding Let_def delta_def by blast
qed


section \<open>Properties of the bucket bounds\<close>





lemma calcBucketBound_explicit:
  assumes "LinearBuckets bucketOptions = None" and "ExponentialBuckets bucketOptions = None"
    and "ExplicitBuckets bucketOptions = Some xb" and "n \<noteq> 0"
  shows "calcBucketBound fl bucketOptions n =
         (if 0 \<le> sint n \<and> nat (sint n) < length (Bounds xb)
          then Inr (Sprintf_g fl (Bounds xb ! nat (sint n))) else Inl IndexOutOfRange)"
  using assms by (simp add: calcBucketBound_def)



text \<open>
  Claim C10. With explicit buckets only, the code reads \<open>Bounds[n]\<close> without a check of
  the range: for an index from \<open>1\<close> and below the number of bounds the call returns the
  \<open>n\<close>-th bound; for an index from \<open>1\<close> that is not below the number of bounds the read
  is out of range and the call panics; so a call with an index other than \<open>0\<close> that
  returns has its index below the number of bounds.
\<close>

theorem calcBucketBound_explicit_range:
  assumes "LinearBuckets bucketOptions = None" and "ExponentialBuckets bucketOptions = None"
    and "ExplicitBuckets bucketOptions = Some xb"
  shows
    "(1 \<le> sint n \<and> sint n < int (length (Bounds xb)) \<longrightarrow>
        calcBucketBound fl bucketOptions n = Inr (Sprintf_g fl (Bounds xb ! nat (sint n)))) \<and>
     (1 \<le> sint n \<and> int (length (Bounds xb)) \<le> sint n \<longrightarrow>
        calcBucketBound fl bucketOptions n = Inl IndexOutOfRange) \<and>
     (n \<noteq> 0 \<and> (\<exists>bound. calcBucketBound fl bucketOptions n = Inr bound) \<longrightarrow>
        sint n < int (length (Bounds xb)))"
proof -
  have nz: "n \<noteq> 0" if "1 \<le> sint n"
    using that by auto
  show ?thesis
    using calcBucketBound_explicit [OF assms, of n fl] nz
    by (auto split: if_splits)
qed

theorem calcBucketBound_explicit_range_witness:
  "(let fl = \<lparr>times = (\<lambda>x y. x * y), Pow = (\<lambda>x y. x ^ nat y), float64_of_int = sint,
              int64_of_float64 = word_of_int, Sprintf_g = FormatInt10\<rparr>;
        explicit = \<lparr>LinearBuckets = None, ExponentialBuckets = None,
                    ExplicitBuckets = Some \<lparr>Bounds = [1, 5, 10 :: int]\<rparr>\<rparr>
    in calcBucketBound fl explicit 1 = Inr ''5'' \<and>
       calcBucketBound fl explicit 3 = Inl IndexOutOfRange)"
proof -
  define fl :: "int float64_ops" where
    "fl = \<lparr>times = (\<lambda>x y. x * y), Pow = (\<lambda>x y. x ^ nat y), float64_of_int = sint,
              int64_of_float64 = word_of_int, Sprintf_g = FormatInt10\<rparr>"
  define explicit :: "int cloudMonitoringBucketOptions" where
    "explicit = \<lparr>LinearBuckets = None, ExponentialBuckets = None,
                    ExplicitBuckets = Some \<lparr>Bounds = [1, 5, 10 :: int]\<rparr>\<rparr>"
  have h: "LinearBuckets explicit = None" "ExponentialBuckets explicit = None"
    "ExplicitBuckets explicit = Some \<lparr>Bounds = [1, 5, 10 :: int]\<rparr>"
    by (simp_all add: explicit_def)
  have a: "calcBucketBound fl explicit 1 = Inr ''5''"
    using calcBucketBound_explicit_range [OF h, of 1 fl]
    by (simp add: FormatInt10_def fl_def)
  have b: "calcBucketBound fl explicit 3 = Inl IndexOutOfRange"
    using calcBucketBound_explicit_range [OF h, of 3 fl]
    by simp
  from a b show ?thesis
    unfolding Let_def fl_def explicit_def by blast
qed


section \<open>Properties of the field configuration\<close>

lemma addConfigData_length:
  "addConfigData frames dl unit = Inr frames' \<Longrightarrow> length frames' = length frames"
  by (induction frames arbitrary: frames') (auto split: sum.splits)

lemma addConfigData_nth:
  "addConfigData frames dl unit = Inr frames' \<Longrightarrow> i < length frames \<Longrightarrow>
   addConfigFrame dl unit (frames ! i) = Inr (frames' ! i)"
proof (induction frames arbitrary: frames' i)
  case Nil
  then show ?case by simp
next
  case (Cons frame frames)
  then show ?case
    by (cases i) (auto split: sum.splits)
qed

lemma addConfigData_total:
  "\<forall>frame\<in>set frames. 2 \<le> length (Fields frame) \<Longrightarrow>
   \<exists>frames'. addConfigData frames dl unit = Inr frames'"
proof (induction frames)
  case Nil
  then show ?case by simp
next
  case (Cons frame frames)
  then obtain frames' where "addConfigData frames dl unit = Inr frames'"
    by auto
  moreover from Cons.prems have "\<exists>frame'. addConfigFrame dl unit frame = Inr frame'"
    by (simp add: addConfigFrame_def Let_def)
  ultimately show ?case by auto
qed

lemma addConfigFrame_field:
  assumes "addConfigFrame dl unit frame = Inr frame'"
  shows "length (Fields frame') = length (Fields frame) \<and>
    Frame.Name frame' = Frame.Name frame \<and>
    (\<forall>j. j \<noteq> 1 \<longrightarrow> Fields frame' ! j = Fields frame ! j) \<and>
    Field.Name (Fields frame' ! 1) = Field.Name (Fields frame ! 1) \<and>
    (\<exists>config.
       Config (Fields frame' ! 1) = Some config \<and>
       Links config =
         Links (case Config (Fields frame ! 1) of
                  None \<Rightarrow> \<lparr>Unit = '''', Links = []\<rparr> | Some c \<Rightarrow> c) @
         [\<lparr>Title = ''View in Metrics Explorer'', TargetBlank = True, URL = dl\<rparr>] \<and>
       Unit config =
         (case (if unit = [] then None else cloudMonitoringUnitMappings unit) of
            Some val \<Rightarrow> val
          | None \<Rightarrow>
              Unit (case Config (Fields frame ! 1) of
                      None \<Rightarrow> \<lparr>Unit = '''', Links = []\<rparr> | Some c \<Rightarrow> c)))"
  using assms
  by (auto simp: addConfigFrame_def Let_def split: if_splits option.splits)

text \<open>
  Claim C9, as amended. For frames that have their time field and their value field
  (\<open>Fields[1]\<close>), \<open>addConfigData\<close> returns as many frames; in each, the value field has
  a configuration whose links are those it had, followed by the link titled
  \<open>View in Metrics Explorer\<close> that opens in a new tab and targets the given URL; the
  unit of the configuration is the translation of the declared unit by the table when
  the unit is not empty and is in the table, and the unit the field had (none for a
  field without configuration) otherwise; the other fields are unchanged. The table
  maps \<open>bit\<close> to \<open>bits\<close>, \<open>%\<close> to \<open>percent\<close> and \<open>By/s\<close> to \<open>Bps\<close>.
\<close>

theorem addConfigData_links_and_units:
  assumes "\<forall>frame\<in>set frames. 2 \<le> length (Fields frame)"
  shows
    "\<exists>frames'. addConfigData frames dl unit = Inr frames' \<and>
       length frames' = length frames \<and>
       (\<forall>i<length frames.
          length (Fields (frames' ! i)) = length (Fields (frames ! i)) \<and>
          Frame.Name (frames' ! i) = Frame.Name (frames ! i) \<and>
          (\<forall>j. j \<noteq> 1 \<longrightarrow> Fields (frames' ! i) ! j = Fields (frames ! i) ! j) \<and>
          Field.Name (Fields (frames' ! i) ! 1) = Field.Name (Fields (frames ! i) ! 1) \<and>
          (\<exists>config.
             Config (Fields (frames' ! i) ! 1) = Some config \<and>
             Links config =
               Links (case Config (Fields (frames ! i) ! 1) of
                        None \<Rightarrow> \<lparr>Unit = '''', Links = []\<rparr> | Some c \<Rightarrow> c) @
               [\<lparr>Title = ''View in Metrics Explorer'', TargetBlank = True, URL = dl\<rparr>] \<and>
             Unit config =
               (case (if unit = [] then None else cloudMonitoringUnitMappings unit) of
                  Some val \<Rightarrow> val
                | None \<Rightarrow>
                    Unit (case Config (Fields (frames ! i) ! 1) of
                            None \<Rightarrow> \<lparr>Unit = '''', Links = []\<rparr> | Some c \<Rightarrow> c)))) \<and>
       cloudMonitoringUnitMappings ''bit'' = Some ''bits'' \<and>
       cloudMonitoringUnitMappings ''%'' = Some ''percent'' \<and>
       cloudMonitoringUnitMappings ''By/s'' = Some ''Bps''"
proof -
  from addConfigData_total [OF assms]
  obtain frames' where r: "addConfigData frames dl unit = Inr frames'"
    by blast
  have len: "length frames' = length frames"
    using r by (rule addConfigData_length)
  have each: "addConfigFrame dl unit (frames ! i) = Inr (frames' ! i)" if "i < length frames" for i
    using r that by (rule addConfigData_nth)
  have table: "cloudMonitoringUnitMappings ''bit'' = Some ''bits''"
    "cloudMonitoringUnitMappings ''%'' = Some ''percent''"
    "cloudMonitoringUnitMappings ''By/s'' = Some ''Bps''"
    by (simp_all add: cloudMonitoringUnitMappings_def)
  show ?thesis
    using r len table addConfigFrame_field [OF each] by blast
qed

theorem addConfigData_links_and_units_witness:
  "addConfigData
     [\<lparr>Frame.Name = ''cpu'', Fields = [\<lparr>Field.Name = ''time'', Config = None\<rparr>,
                                        \<lparr>Field.Name = ''value'', Config = None\<rparr>]\<rparr>]
     ''https://console.example/metrics'' ''By/s'' =
   Inr [\<lparr>Frame.Name = ''cpu'', Fields = [\<lparr>Field.Name = ''time'', Config = None\<rparr>,
          \<lparr>Field.Name = ''value'', Config = Some \<lparr>Unit = ''Bps'', Links =
             [\<lparr>Title = ''View in Metrics Explorer'', TargetBlank = True,
               URL = ''https://console.example/metrics''\<rparr>]\<rparr>\<rparr>]\<rparr>]"
proof -
  have "\<forall>frame\<in>set [\<lparr>Frame.Name = ''cpu'', Fields = [\<lparr>Field.Name = ''time'', Config = None\<rparr>,
                                        \<lparr>Field.Name = ''value'', Config = None\<rparr>]\<rparr>].
          2 \<le> length (Fields frame)"
    by simp
  from addConfigData_links_and_units [OF this, of "''https://console.example/metrics''" "''By/s''"]
  obtain frames' where "addConfigData
     [\<lparr>Frame.Name = ''cpu'', Fields = [\<lparr>Field.Name = ''time'', Config = None\<rparr>,
                                        \<lparr>Field.Name = ''value'', Config = None\<rparr>]\<rparr>]
     ''https://console.example/metrics'' ''By/s'' = Inr frames'"
    by blast
  then show ?thesis
    by (simp add: addConfigFrame_def cloudMonitoringUnitMappings_def split: sum.splits)
qed

theorem addConfigData_links_and_units_counterexample:
  "cloudMonitoringUnitMappings ''%%'' = None \<and>
   addConfigData
     [\<lparr>Frame.Name = ''cpu'', Fields = [\<lparr>Field.Name = ''time'', Config = None\<rparr>,
                                        \<lparr>Field.Name = ''value'', Config = None\<rparr>]\<rparr>]
     ''https://console.example/metrics'' ''%%'' =
   Inr [\<lparr>Frame.Name = ''cpu'', Fields = [\<lparr>Field.Name = ''time'', Config = None\<rparr>,
          \<lparr>Field.Name = ''value'', Config = Some \<lparr>Unit = '''', Links =
             [\<lparr>Title = ''View in Metrics Explorer'', TargetBlank = True,
               URL = ''https://console.example/metrics''\<rparr>]\<rparr>\<rparr>]\<rparr>]"
  by (simp add: addConfigFrame_def cloudMonitoringUnitMappings_def)


section \<open>Properties of the dispatcher\<close>




lemma buildQueryExecutor_RefID:
  assumes "buildQueryExecutor s req startTime endTime durationSeconds query = Inr (Inr e)"
  shows "getRefID e = DataQuery.RefID query"
proof (cases "queryModel query")
  case (Inl err)
  with assms show ?thesis by (simp add: buildQueryExecutor_def)
next
  case (Inr q)
  with assms show ?thesis
    by (auto simp: buildQueryExecutor_def Let_def split: if_splits)
qed

lemma loop_all_built:
  assumes "buildQueryExecutors_loop s req startTime endTime durationSeconds queries
           = Inr (Inr executors)"
  shows "list_all2
           (\<lambda>query e. buildQueryExecutor s req startTime endTime durationSeconds query
                         = Inr (Inr e))
           queries executors"
  using assms
proof (induction queries arbitrary: executors)
  case Nil
  then show ?case by simp
next
  case (Cons query queries)
  then show ?case
    by (auto split: sum.splits)
qed

lemma loop_stops_at_panic:
  assumes "\<forall>query\<in>set before. \<exists>e.
             buildQueryExecutor s req startTime endTime durationSeconds query = Inr (Inr e)"
    and "buildQueryExecutor s req startTime endTime durationSeconds query = Inl p"
  shows "buildQueryExecutors_loop s req startTime endTime durationSeconds
           (before @ query # after) = Inl p"
  using assms by (induction before) auto

lemma buildQueryExecutors_RefIDs:
  assumes "buildQueryExecutors s req = Inr (Inr executors)"
  shows "map getRefID executors = map DataQuery.RefID (Queries req)"
proof -
  from assms obtain startTime endTime durationSeconds where
    "buildQueryExecutors_loop s req startTime endTime durationSeconds (Queries req)
     = Inr (Inr executors)"
    by (auto simp: buildQueryExecutors_def Let_def split: list.splits)
  then have "list_all2
           (\<lambda>query e. buildQueryExecutor s req startTime endTime durationSeconds query
                         = Inr (Inr e))
           (Queries req) executors"
    by (rule loop_all_built)
  then have "list_all2 (\<lambda>query e. getRefID e = DataQuery.RefID query) (Queries req) executors"
    by (rule list_all2_mono) (rule buildQueryExecutor_RefID)
  then show ?thesis
    by (induction rule: list_all2_induct) simp_all
qed



text \<open>The result of one executor: what the loop stores under its reference id.\<close>

lemma loop_other_key:
  assumes "k \<notin> getRefID ` set es"
  shows "Responses (fst (executeTimeSeriesQuery_loop s es resp)) k = Responses resp k"
  using assms
  by (induction es arbitrary: resp) (auto split: prod.splits option.splits)

lemma loop_no_error:
  assumes "\<forall>e\<in>set es. snd (snd (snd (run s e))) = None"
  shows "snd (executeTimeSeriesQuery_loop s es resp) = None"
  using assms
  by (induction es arbitrary: resp) (auto split: prod.splits option.splits)

lemma loop_own_key:
  assumes "\<forall>e\<in>set es. snd (snd (snd (run s e))) = None"
    and "distinct (map getRefID es)" and "e \<in> set es"
  shows "Responses (fst (executeTimeSeriesQuery_loop s es resp)) (getRefID e) =
         Some (parsedResult s e (fst (run s e)) (fst (snd (run s e)))
                 (fst (snd (snd (run s e)))))"
  using assms
proof (induction es arbitrary: resp)
  case Nil
  then show ?case by simp
next
  case (Cons x es)
  from Cons.prems(1) obtain queryRes dr executedQueryString where
    rx: "run s x = (queryRes, dr, executedQueryString, None)"
    by (cases "run s x") auto
  show ?case
  proof (cases "e = x")
    case True
    with Cons.prems(2) have "getRefID e \<notin> getRefID ` set es" by auto
    then show ?thesis
      using True rx by (simp add: loop_other_key)
  next
    case False
    with Cons.prems have "e \<in> set es" "distinct (map getRefID es)"
      "\<forall>e\<in>set es. snd (snd (snd (run s e))) = None"
      by auto
    then show ?thesis
      using rx Cons.IH by simp
  qed
qed

lemma loop_dom:
  assumes "\<forall>e\<in>set es. snd (snd (snd (run s e))) = None"
  shows "dom (Responses (fst (executeTimeSeriesQuery_loop s es resp))) =
         dom (Responses resp) \<union> getRefID ` set es"
  using assms
  by (induction es arbitrary: resp) (auto split: prod.splits option.splits)

lemma run_spec_no_error: "snd (snd (snd (run_spec w e))) = None"
  by (simp add: run_spec_def Let_def split: remoteResult.splits sum.splits)

lemma unmarshalResponse_status:
  "StatusCode res sdiv 100 \<noteq> 2 \<Longrightarrow> \<exists>err. unmarshalResponse dec res = Inl err"
  by (simp add: unmarshalResponse_def split: sum.splits)

lemma unmarshalResponse_body:
  "Body res = Inr body \<Longrightarrow> dec body = Inl err \<Longrightarrow> \<exists>err'. unmarshalResponse dec res = Inl err'"
  by (simp add: unmarshalResponse_def)

lemma unmarshalResponse_ok:
  "StatusCode res sdiv 100 = 2 \<Longrightarrow> Body res = Inr body \<Longrightarrow> dec body = Inr d \<Longrightarrow>
   unmarshalResponse dec res = Inr d"
  by (simp add: unmarshalResponse_def)

lemma spec_result_failed:
  assumes "run s = run_spec w" and "parseResponse s = parseResponse_spec w"
    and "(\<exists>err. Do w e = TransportError err) \<or>
         (\<exists>res err. Do w e = HTTPResponse res \<and> unmarshalResponse (json_Unmarshal w) res = Inl err)"
  shows "Error (parsedResult s e (fst (run s e)) (fst (snd (run s e)))
                  (fst (snd (snd (run s e))))) \<noteq> None"
  using assms
  by (auto simp: parsedResult_def run_spec_def parseResponse_spec_def Let_def
      split: prod.splits option.splits)

lemma spec_result_ok:
  assumes "run s = run_spec w" and "parseResponse s = parseResponse_spec w"
    and "Do w e = HTTPResponse res" and "unmarshalResponse (json_Unmarshal w) res = Inr d"
  shows "parsedResult s e (fst (run s e)) (fst (snd (run s e))) (fst (snd (snd (run s e)))) =
         \<lparr>Frames = fst (toFrames w e d (RawQuery w e)),
          Error = snd (toFrames w e d (RawQuery w e))\<rparr>"
  using assms
  by (auto simp: parsedResult_def run_spec_def parseResponse_spec_def Let_def
      split: prod.splits option.splits)

text \<open>
  Claim C1. With executors that run as the specification describes them
  (\<open>run_spec\<close>, \<open>parseResponse_spec\<close>) and reference ids that are distinct, a batch whose
  executors are built returns no error of the batch; its response holds exactly one
  entry for each reference id of the batch; the entry of a query whose remote call
  fails (a transport error, a status outside 2xx, a body that cannot be read or
  decoded) carries an error; and the entry of a query whose call succeeds is the
  frames and the conversion error of that query alone, whatever happens to the other
  queries of the batch.
\<close>

theorem executeTimeSeriesQuery_partial_failure:
  assumes "run s = run_spec w" and "parseResponse s = parseResponse_spec w"
    and "buildQueryExecutors s req = Inr (Inr executors)"
    and "distinct (map getRefID executors)"
  shows
    "\<exists>resp. executeTimeSeriesQuery s req = Inr (resp, None) \<and>
       map getRefID executors = map DataQuery.RefID (Queries req) \<and>
       dom (Responses resp) = getRefID ` set executors \<and>
       (\<forall>e\<in>set executors. \<exists>r. Responses resp (getRefID e) = Some r \<and>
          (\<forall>err. Do w e = TransportError err \<longrightarrow> Error r \<noteq> None) \<and>
          (\<forall>res. Do w e = HTTPResponse res \<and> StatusCode res sdiv 100 \<noteq> 2 \<longrightarrow>
                   Error r \<noteq> None) \<and>
          (\<forall>res err. Do w e = HTTPResponse res \<and> Body res = Inl err \<longrightarrow> Error r \<noteq> None) \<and>
          (\<forall>res body err. Do w e = HTTPResponse res \<and> Body res = Inr body \<and>
                   json_Unmarshal w body = Inl err \<longrightarrow> Error r \<noteq> None) \<and>
          (\<forall>res body d. Do w e = HTTPResponse res \<and> StatusCode res sdiv 100 = 2 \<and>
                   Body res = Inr body \<and> json_Unmarshal w body = Inr d \<longrightarrow>
                   r = \<lparr>Frames = fst (toFrames w e d (RawQuery w e)),
                        Error = snd (toFrames w e d (RawQuery w e))\<rparr>))"
proof -
  define resp where "resp = fst (executeTimeSeriesQuery_loop s executors NewQueryDataResponse)"
  have noerr: "\<forall>e\<in>set executors. snd (snd (snd (run s e))) = None"
    by (simp add: assms(1) run_spec_no_error)
  have "executeTimeSeriesQuery s req =
        Inr (executeTimeSeriesQuery_loop s executors NewQueryDataResponse)"
    by (simp add: executeTimeSeriesQuery_def assms(3))
  moreover have "snd (executeTimeSeriesQuery_loop s executors NewQueryDataResponse) = None"
    using noerr by (rule loop_no_error)
  ultimately have ex: "executeTimeSeriesQuery s req = Inr (resp, None)"
    by (simp add: resp_def prod_eq_iff)
  have ids: "map getRefID executors = map DataQuery.RefID (Queries req)"
    using assms(3) by (rule buildQueryExecutors_RefIDs)
  have dm: "dom (Responses resp) = getRefID ` set executors"
    unfolding resp_def loop_dom [OF noerr] by (simp add: NewQueryDataResponse_def)
  have slot: "\<exists>r. Responses resp (getRefID e) = Some r \<and>
          (\<forall>err. Do w e = TransportError err \<longrightarrow> Error r \<noteq> None) \<and>
          (\<forall>res. Do w e = HTTPResponse res \<and> StatusCode res sdiv 100 \<noteq> 2 \<longrightarrow>
                   Error r \<noteq> None) \<and>
          (\<forall>res err. Do w e = HTTPResponse res \<and> Body res = Inl err \<longrightarrow> Error r \<noteq> None) \<and>
          (\<forall>res body err. Do w e = HTTPResponse res \<and> Body res = Inr body \<and>
                   json_Unmarshal w body = Inl err \<longrightarrow> Error r \<noteq> None) \<and>
          (\<forall>res body d. Do w e = HTTPResponse res \<and> StatusCode res sdiv 100 = 2 \<and>
                   Body res = Inr body \<and> json_Unmarshal w body = Inr d \<longrightarrow>
                   r = \<lparr>Frames = fst (toFrames w e d (RawQuery w e)),
                        Error = snd (toFrames w e d (RawQuery w e))\<rparr>)"
    if e: "e \<in> set executors" for e
  proof -
    let ?r = "parsedResult s e (fst (run s e)) (fst (snd (run s e))) (fst (snd (snd (run s e))))"
    have own: "Responses resp (getRefID e) = Some ?r"
      unfolding resp_def using noerr assms(4) e by (rule loop_own_key)
    have transport: "Error ?r \<noteq> None" if "Do w e = TransportError err" for err
      using that by (intro spec_result_failed [OF assms(1) assms(2)]) blast
    have failed: "Error ?r \<noteq> None"
      if "Do w e = HTTPResponse res" "unmarshalResponse (json_Unmarshal w) res = Inl err"
      for res err
      using that by (intro spec_result_failed [OF assms(1) assms(2)]) blast
    have status: "Error ?r \<noteq> None"
      if "Do w e = HTTPResponse res" "StatusCode res sdiv 100 \<noteq> 2" for res
      using that failed [of res] unmarshalResponse_status [of res "json_Unmarshal w"] by blast
    have unread: "Error ?r \<noteq> None"
      if "Do w e = HTTPResponse res" "Body res = Inl err" for res err
      using that failed [of res err] by (simp add: unmarshalResponse_def)
    have undecoded: "Error ?r \<noteq> None"
      if "Do w e = HTTPResponse res" "Body res = Inr body" "json_Unmarshal w body = Inl err"
      for res body err
      using that failed [of res] unmarshalResponse_body [of res body "json_Unmarshal w" err]
      by blast
    have ok: "?r = \<lparr>Frames = fst (toFrames w e d (RawQuery w e)),
                     Error = snd (toFrames w e d (RawQuery w e))\<rparr>"
      if "Do w e = HTTPResponse res" "StatusCode res sdiv 100 = 2" "Body res = Inr body"
        "json_Unmarshal w body = Inr d" for res body d
      using that spec_result_ok [OF assms(1) assms(2), of e res d]
        unmarshalResponse_ok [of res body "json_Unmarshal w" d]
      by blast
    show ?thesis
      using own transport status unread undecoded ok by blast
  qed
  show ?thesis
    using ex ids dm slot by blast
qed

theorem executeTimeSeriesQuery_partial_failure_witness:
  "(let mql = \<lparr>metricQuery.ProjectName = ''p'', MetricType = '''', CrossSeriesReducer = '''',
                metricQuery.AlignmentPeriod = '''', PerSeriesAligner = '''',
                metricQuery.GroupBys = [], Filters = [], metricQuery.AliasBy = '''',
                View = '''', EditorMode = ''mql'', metricQuery.Query = ''fetch gce_instance'',
                Preprocessor = '''', PreprocessorType = PreprocessorTypeNone\<rparr>;
        doc = \<lparr>Unmarshal_rawQuery = Inr {''queryType'', ''metricQuery''},
               Unmarshal_metricQuery = Inr mql,
               Unmarshal_grafanaQuery =
                 Inr \<lparr>QueryType = ''metrics'', MetricQuery = mql, SloQuery = sloQuery_zero\<rparr>,
               Unmarshal_QueryModel = Inr \<lparr>Type = ''timeSeriesQuery''\<rparr>\<rparr>;
        range = \<lparr>From = 0, To = 3600000000000\<rparr>;
        req = \<lparr>Queries =
                 [\<lparr>DataQuery.RefID = ''A'', Interval = 15000000000, TimeRange = range,
                   JSON = doc\<rparr>,
                  \<lparr>DataQuery.RefID = ''B'', Interval = 15000000000, TimeRange = range,
                   JSON = doc\<rparr>,
                  \<lparr>DataQuery.RefID = ''C'', Interval = 15000000000, TimeRange = range,
                   JSON = doc\<rparr>]\<rparr>;
        w = \<lparr>Do = (\<lambda>e. if getRefID e = ''B''
                        then HTTPResponse \<lparr>StatusCode = 500, Body = Inr ''internal''\<rparr>
                        else HTTPResponse \<lparr>StatusCode = 200, Body = Inr ''series''\<rparr>),
             json_Unmarshal = (\<lambda>body. Inr body),
             emptyResponse = '''',
             toFrames = (\<lambda>e d q. ([\<lparr>Frame.Name = d, Fields = []\<rparr>], None)),
             RawQuery = (\<lambda>e. '''')\<rparr>;
        s = \<lparr>Format_RFC3339 = (\<lambda>t. ''''), Encode = (\<lambda>v. ''''),
             toPreprocessorType = (\<lambda>p. PreprocessorTypeNone),
             run = run_spec w, parseResponse = parseResponse_spec w,
             getDSInfo = Inl ''unused'', FindDefaultCredentials = Inl ''unused'',
             executeAnnotationQuery = (\<lambda>r d. (None, None))\<rparr>
    in \<exists>resp a b c.
         executeTimeSeriesQuery s req = Inr (resp, None) \<and>
         Responses resp ''A'' = Some a \<and> Error a = None \<and>
         Frames a = [\<lparr>Frame.Name = ''series'', Fields = []\<rparr>] \<and>
         Responses resp ''B'' = Some b \<and> Error b \<noteq> None \<and>
         Responses resp ''C'' = Some c \<and> Error c = None \<and>
         Frames c = [\<lparr>Frame.Name = ''series'', Fields = []\<rparr>])"
proof -
  define mql where "mql = \<lparr>metricQuery.ProjectName = ''p'', MetricType = '''',
                CrossSeriesReducer = '''',
                metricQuery.AlignmentPeriod = '''', PerSeriesAligner = '''',
                metricQuery.GroupBys = [], Filters = [], metricQuery.AliasBy = '''',
                View = '''', EditorMode = ''mql'', metricQuery.Query = ''fetch gce_instance'',
                Preprocessor = '''', PreprocessorType = PreprocessorTypeNone\<rparr>"
  define doc where "doc = \<lparr>Unmarshal_rawQuery = Inr {''queryType'', ''metricQuery''},
               Unmarshal_metricQuery = Inr mql,
               Unmarshal_grafanaQuery =
                 Inr \<lparr>QueryType = ''metrics'', MetricQuery = mql, SloQuery = sloQuery_zero\<rparr>,
               Unmarshal_QueryModel = Inr \<lparr>Type = ''timeSeriesQuery''\<rparr>\<rparr>"
  define range where "range = \<lparr>From = 0, To = 3600000000000\<rparr>"
  define req where "req = \<lparr>Queries =
                 [\<lparr>DataQuery.RefID = ''A'', Interval = 15000000000, TimeRange = range,
                   JSON = doc\<rparr>,
                  \<lparr>DataQuery.RefID = ''B'', Interval = 15000000000, TimeRange = range,
                   JSON = doc\<rparr>,
                  \<lparr>DataQuery.RefID = ''C'', Interval = 15000000000, TimeRange = range,
                   JSON = doc\<rparr>]\<rparr>"
  define w :: "string remote" where "w = \<lparr>Do = (\<lambda>e. if getRefID e = ''B''
                        then HTTPResponse \<lparr>StatusCode = 500, Body = Inr ''internal''\<rparr>
                        else HTTPResponse \<lparr>StatusCode = 200, Body = Inr ''series''\<rparr>),
             json_Unmarshal = (\<lambda>body. Inr body),
             emptyResponse = '''',
             toFrames = (\<lambda>e d q. ([\<lparr>Frame.Name = d, Fields = []\<rparr>], None)),
             RawQuery = (\<lambda>e. '''')\<rparr>"
  define s where "s = \<lparr>Format_RFC3339 = (\<lambda>t. ''''), Encode = (\<lambda>v. ''''),
             toPreprocessorType = (\<lambda>p. PreprocessorTypeNone),
             run = run_spec w, parseResponse = parseResponse_spec w,
             getDSInfo = Inl ''unused'', FindDefaultCredentials = Inl ''unused'',
             executeAnnotationQuery = (\<lambda>r d. (None, None))\<rparr>"
  define ex where "ex r = TimeSeriesQuery
      \<lparr>cloudMonitoringTimeSeriesQuery.RefID = r,
       cloudMonitoringTimeSeriesQuery.ProjectName = ''p'',
       cloudMonitoringTimeSeriesQuery.Query = ''fetch gce_instance'', IntervalMS = 15000,
       cloudMonitoringTimeSeriesQuery.AliasBy = '''', timeRange = range\<rparr>" for r
  have h1: "run s = run_spec w" and h2: "parseResponse s = parseResponse_spec w"
    by (simp_all add: s_def)
  have h3: "buildQueryExecutors s req = Inr (Inr [ex ''A'', ex ''B'', ex ''C''])"
    by (simp add: buildQueryExecutors_def buildQueryExecutor_def queryModel_def req_def
        doc_def mql_def s_def ex_def range_def metricQueryType_def mqlEditorMode_def Let_def)
  have h4: "distinct (map getRefID [ex ''A'', ex ''B'', ex ''C''])"
    by (simp add: ex_def)
  from executeTimeSeriesQuery_partial_failure [OF h1 h2 h3 h4]
  obtain resp where all: "executeTimeSeriesQuery s req = Inr (resp, None) \<and>
       map getRefID [ex ''A'', ex ''B'', ex ''C''] = map DataQuery.RefID (Queries req) \<and>
       dom (Responses resp) = getRefID ` set [ex ''A'', ex ''B'', ex ''C''] \<and>
       (\<forall>e\<in>set [ex ''A'', ex ''B'', ex ''C'']. \<exists>r. Responses resp (getRefID e) = Some r \<and>
          (\<forall>err. Do w e = TransportError err \<longrightarrow> Error r \<noteq> None) \<and>
          (\<forall>res. Do w e = HTTPResponse res \<and> StatusCode res sdiv 100 \<noteq> 2 \<longrightarrow>
                   Error r \<noteq> None) \<and>
          (\<forall>res err. Do w e = HTTPResponse res \<and> Body res = Inl err \<longrightarrow> Error r \<noteq> None) \<and>
          (\<forall>res body err. Do w e = HTTPResponse res \<and> Body res = Inr body \<and>
                   json_Unmarshal w body = Inl err \<longrightarrow> Error r \<noteq> None) \<and>
          (\<forall>res body d. Do w e = HTTPResponse res \<and> StatusCode res sdiv 100 = 2 \<and>
                   Body res = Inr body \<and> json_Unmarshal w body = Inr d \<longrightarrow>
                   r = \<lparr>Frames = fst (toFrames w e d (RawQuery w e)),
                        Error = snd (toFrames w e d (RawQuery w e))\<rparr>))"
    (is "_ \<and> _ \<and> _ \<and> (\<forall>e\<in>_. \<exists>r. ?P e r)")
    ..
  from all have r: "executeTimeSeriesQuery s req = Inr (resp, None)"
    by (rule conjunct1)
  from all have each: "\<forall>e\<in>set [ex ''A'', ex ''B'', ex ''C'']. \<exists>r. ?P e r"
    by (elim conjE)
  have okA: "Do w (ex ''A'') = HTTPResponse \<lparr>StatusCode = 200, Body = Inr ''series''\<rparr>"
    and okC: "Do w (ex ''C'') = HTTPResponse \<lparr>StatusCode = 200, Body = Inr ''series''\<rparr>"
    and koB: "Do w (ex ''B'') = HTTPResponse \<lparr>StatusCode = 500, Body = Inr ''internal''\<rparr>"
    by (simp_all add: w_def ex_def)
  have dec: "json_Unmarshal w ''series'' = Inr ''series''"
    by (simp add: w_def)
  have fr: "toFrames w e ''series'' q = ([\<lparr>Frame.Name = ''series'', Fields = []\<rparr>], None)" for e q
    by (simp add: w_def)
  have ids: "getRefID (ex ''A'') = ''A''" "getRefID (ex ''B'') = ''B''" "getRefID (ex ''C'') = ''C''"
    by (simp_all add: ex_def)
  have "ex ''A'' \<in> set [ex ''A'', ex ''B'', ex ''C'']" by simp
  from bspec [OF each this] obtain a where A: "?P (ex ''A'') a" ..
  have "ex ''B'' \<in> set [ex ''A'', ex ''B'', ex ''C'']" by simp
  from bspec [OF each this] obtain b where B: "?P (ex ''B'') b" ..
  have "ex ''C'' \<in> set [ex ''A'', ex ''B'', ex ''C'']" by simp
  from bspec [OF each this] obtain c where C: "?P (ex ''C'') c" ..
  have a1: "Responses resp ''A'' = Some a"
    using A [THEN conjunct1] by (simp only: ids)
  have a2: "a = \<lparr>Frames = [\<lparr>Frame.Name = ''series'', Fields = []\<rparr>], Error = None\<rparr>"
    using A [THEN conjunct2, THEN conjunct2, THEN conjunct2, THEN conjunct2, THEN conjunct2,
             rule_format, of "\<lparr>StatusCode = 200, Body = Inr ''series''\<rparr>" "''series''" "''series''"]
      okA dec
    by (simp add: fr)
  have c1: "Responses resp ''C'' = Some c"
    using C [THEN conjunct1] by (simp only: ids)
  have c2: "c = \<lparr>Frames = [\<lparr>Frame.Name = ''series'', Fields = []\<rparr>], Error = None\<rparr>"
    using C [THEN conjunct2, THEN conjunct2, THEN conjunct2, THEN conjunct2, THEN conjunct2,
             rule_format, of "\<lparr>StatusCode = 200, Body = Inr ''series''\<rparr>" "''series''" "''series''"]
      okC dec
    by (simp add: fr)
  have b1: "Responses resp ''B'' = Some b"
    using B [THEN conjunct1] by (simp only: ids)
  have b2: "Error b \<noteq> None"
    using B [THEN conjunct2, THEN conjunct2, THEN conjunct1, rule_format,
             of "\<lparr>StatusCode = 500, Body = Inr ''internal''\<rparr>"] koB
    by simp
  have "executeTimeSeriesQuery s req = Inr (resp, None) \<and>
         Responses resp ''A'' = Some a \<and> Error a = None \<and>
         Frames a = [\<lparr>Frame.Name = ''series'', Fields = []\<rparr>] \<and>
         Responses resp ''B'' = Some b \<and> Error b \<noteq> None \<and>
         Responses resp ''C'' = Some c \<and> Error c = None \<and>
         Frames c = [\<lparr>Frame.Name = ''series'', Fields = []\<rparr>]"
    using r a1 a2 b1 b2 c1 c2 by simp
  then show ?thesis
    unfolding Let_def mql_def doc_def range_def req_def w_def s_def by blast
qed




end
